theory Spec2Isabelle
  imports Complex_Main
begin

section \<open>Shared data model\<close>

text \<open>
  The Go package keeps loosely typed JSON as \<open>map[string]interface{}\<close> and
  \<open>[]interface{}\<close>. An object is an association list read through \<open>map_of\<close>;
  a type assertion \<open>x.(T)\<close> with the comma-ok form is a partial projection.
  A \<open>float64\<close> is idealised as a real number throughout.
\<close>

datatype json =
    JNull
  | JBool bool
  | JNum real
  | JStr string
  | JArr "json list"
  | JObj "(string \<times> json) list"

text \<open>The proxy configuration: a nil interface is \<open>None\<close>.\<close>

datatype ProxyConfig =
    GenericProxyConfig string string
  | WebshareProxyConfig string string "string list" int string int

fun RetriesWhenBlocked :: "ProxyConfig \<Rightarrow> int" where
  "RetriesWhenBlocked (GenericProxyConfig httpURL httpsURL) = 0"
| "RetriesWhenBlocked (WebshareProxyConfig username password locations retriesCount domainName port) = retriesCount"

record TranslationLanguage =
  tl_Language :: string
  tl_LanguageCode :: string

text \<open>
  A \<open>Transcript\<close> handle. \<open>httpClient\<close> is the address of the shared client.
  The Go map \<open>translationLanguagesMap\<close> is a partial function.
\<close>

record Transcript =
  httpClient :: nat
  VideoID :: string
  url :: string
  Title :: string
  ThumbnailURL :: string
  Language :: string
  LanguageCode :: string
  IsGenerated :: bool
  TranslationLanguages :: "TranslationLanguage list"
  translationLanguagesMap :: "string \<rightharpoonup> string"

record TranscriptList =
  tl_VideoID :: string
  manuallyCreatedTranscripts :: "string \<rightharpoonup> Transcript"
  generatedTranscripts :: "string \<rightharpoonup> Transcript"
  translationLanguages :: "TranslationLanguage list"

text \<open>
  The exception hierarchy as one tagged error. Every error carries the video id.
  \<open>RequestBlocked\<close> also carries the proxy configuration that \<open>WithProxyConfig\<close>
  stores; \<open>IpBlocked\<close> is a separate Go type (it embeds \<open>RequestBlocked\<close>, which
  does not make a \<open>*IpBlocked\<close> value a \<open>*RequestBlocked\<close> value).
  \<open>NoTranscriptFound\<close> carries the requested codes and the catalog that its
  \<open>Cause\<close> renders as the summary.
\<close>

datatype cause = TransportError string | HTTPStatus int string | ReadError string | ParseError string

datatype error =
    YouTubeRequestFailed string cause
  | YouTubeDataUnparsable string
  | RequestBlocked string "ProxyConfig option"
  | IpBlocked string
  | VideoUnplayable string string "string list"
  | VideoUnavailable string
  | InvalidVideoId string
  | AgeRestricted string
  | TranscriptsDisabled string
  | FailedToCreateConsentCookie string
  | NotTranslatable string
  | TranslationLanguageNotAvailable string
  | NoTranscriptFound string "string list" TranscriptList
  | PoTokenRequired string

section \<open>Catalog queries\<close>

text \<open>The inner loop of \<open>findTranscript\<close>: the dictionaries in the order given.\<close>

fun lookup_dicts :: "(string \<rightharpoonup> Transcript) list \<Rightarrow> string \<Rightarrow> Transcript option" where
  "lookup_dicts [] languageCode = None"
| "lookup_dicts (transcriptDict # rest) languageCode =
     (case transcriptDict languageCode of
        Some transcript \<Rightarrow> Some transcript
      | None \<Rightarrow> lookup_dicts rest languageCode)"

text \<open>The outer loop: the language codes in the caller's order.\<close>

fun lookup_codes :: "(string \<rightharpoonup> Transcript) list \<Rightarrow> string list \<Rightarrow> Transcript option" where
  "lookup_codes transcriptDicts [] = None"
| "lookup_codes transcriptDicts (languageCode # rest) =
     (case lookup_dicts transcriptDicts languageCode of
        Some transcript \<Rightarrow> Some transcript
      | None \<Rightarrow> lookup_codes transcriptDicts rest)"

definition findTranscript ::
  "TranscriptList \<Rightarrow> string list \<Rightarrow> (string \<rightharpoonup> Transcript) list \<Rightarrow> error + Transcript" where
  "findTranscript catalog languageCodes transcriptDicts =
     (case lookup_codes transcriptDicts languageCodes of
        Some transcript \<Rightarrow> Inr transcript
      | None \<Rightarrow> Inl (NoTranscriptFound (tl_VideoID catalog) languageCodes catalog))"

definition FindTranscript :: "TranscriptList \<Rightarrow> string list \<Rightarrow> error + Transcript" where
  "FindTranscript catalog languageCodes =
     findTranscript catalog languageCodes
       [manuallyCreatedTranscripts catalog, generatedTranscripts catalog]"

definition FindManuallyCreatedTranscript :: "TranscriptList \<Rightarrow> string list \<Rightarrow> error + Transcript" where
  "FindManuallyCreatedTranscript catalog languageCodes =
     findTranscript catalog languageCodes [manuallyCreatedTranscripts catalog]"

definition FindGeneratedTranscript :: "TranscriptList \<Rightarrow> string list \<Rightarrow> error + Transcript" where
  "FindGeneratedTranscript catalog languageCodes =
     findTranscript catalog languageCodes [generatedTranscripts catalog]"

section \<open>Transcript handles\<close>

text \<open>The loop of \<open>NewTranscript\<close> that fills the map: a later entry overwrites.\<close>

fun fill_map :: "(string \<rightharpoonup> string) \<Rightarrow> TranslationLanguage list \<Rightarrow> (string \<rightharpoonup> string)" where
  "fill_map translationMap [] = translationMap"
| "fill_map translationMap (lang # rest) =
     fill_map (translationMap(tl_LanguageCode lang \<mapsto> tl_Language lang)) rest"

definition NewTranscript ::
  "nat \<Rightarrow> string \<Rightarrow> string \<Rightarrow> string \<Rightarrow> string \<Rightarrow> string \<Rightarrow> string \<Rightarrow> bool \<Rightarrow>
   TranslationLanguage list \<Rightarrow> Transcript" where
  "NewTranscript client videoID title thumbnailURL u language languageCode isGenerated tls =
     \<lparr> httpClient = client, VideoID = videoID, url = u, Title = title,
       ThumbnailURL = thumbnailURL, Language = language, LanguageCode = languageCode,
       IsGenerated = isGenerated, TranslationLanguages = tls,
       translationLanguagesMap = fill_map Map.empty tls \<rparr>"

definition IsTranslatable :: "Transcript \<Rightarrow> bool" where
  "IsTranslatable t = (length (TranslationLanguages t) > 0)"

text \<open>
  \<open>Translate\<close> has a pointer receiver and returns a pointer to a fresh object.
  The heap of handles is a list and an address is an index; \<open>&Transcript{...}\<close>
  allocates at the end. The function returns the heap it leaves behind.
\<close>

type_synonym heap = "Transcript list"

definition Translate :: "heap \<Rightarrow> nat \<Rightarrow> string \<Rightarrow> heap \<times> (error + nat)" where
  "Translate h p languageCode =
     (let t = h ! p in
      if \<not> IsTranslatable t then (h, Inl (NotTranslatable (VideoID t)))
      else
        (case translationLanguagesMap t languageCode of
           None \<Rightarrow> (h, Inl (TranslationLanguageNotAvailable (VideoID t)))
         | Some translatedLanguage \<Rightarrow>
             (let translatedURL = url t @ ''&tlang='' @ languageCode in
              (h @ [NewTranscript (httpClient t) (VideoID t) (Title t) (ThumbnailURL t)
                      translatedURL translatedLanguage languageCode True []],
               Inr (length h)))))"

section \<open>Fetched transcripts and formatters\<close>

record FetchedTranscriptSnippet =
  Text :: string
  Start :: real
  Duration :: real

record FetchedTranscript =
  ft_Title :: string
  ft_ThumbnailURL :: string
  Snippets :: "FetchedTranscriptSnippet list"
  ft_VideoID :: string
  ft_Language :: string
  ft_LanguageCode :: string
  ft_IsGenerated :: bool

text \<open>
  \<open>ToRawData\<close> allocates a slice of \<open>len(ft.Snippets)\<close> nil maps and stores one
  map literal per index.
\<close>

definition raw_snippet :: "FetchedTranscriptSnippet \<Rightarrow> json" where
  "raw_snippet snippet =
     JObj [(''text'', JStr (Text snippet)),
           (''start'', JNum (Start snippet)),
           (''duration'', JNum (Duration snippet))]"

definition ToRawData :: "FetchedTranscript \<Rightarrow> json list" where
  "ToRawData ft =
     fold (\<lambda>i result. result[i := raw_snippet (Snippets ft ! i)])
       [0..<length (Snippets ft)]
       (replicate (length (Snippets ft)) JNull)"

text \<open>
  Functions of the Go standard library and of \<open>etree\<close>, and the remote server, are
  not part of the package: they are the fields of an environment.
  \<^item> \<open>server n\<close> is what the \<open>n\<close>-th call of \<open>HTTPClient.Get\<close> or \<open>Post\<close> meets;
  \<^item> \<open>UnescapeString\<close> is \<open>html.UnescapeString\<close>;
  \<^item> \<open>Decode\<close> is \<open>json.NewDecoder(body).Decode\<close> into a map (an error text on the left);
  \<^item> \<open>MarshalIndent\<close> is \<open>json.MarshalIndent(v, "", "  ")\<close>, \<open>Unmarshal\<close> its decoder;
  \<^item> \<open>ReadFromString\<close> is \<open>etree\<close>'s reader: an error, or a document and its root if any;
  \<^item> \<open>Sscanf_f\<close> is \<open>fmt.Sscanf(s, "%f", &x)\<close>: the value stored, \<open>None\<close> when the
    scan fails and \<open>x\<close> keeps its zero value.
\<close>

datatype body = Body string | Broken string

datatype reply = NoReply string | Reply int string body

datatype element = Element string "(string \<times> string) list" string "element list"

record env =
  server :: "nat \<Rightarrow> reply"
  UnescapeString :: "string \<Rightarrow> string"
  Decode :: "string \<Rightarrow> string + (string \<times> json) list"
  MarshalIndent :: "json \<Rightarrow> string + string"
  Unmarshal :: "string \<Rightarrow> string + json"
  ReadFromString :: "string \<Rightarrow> string + element option"
  Sscanf_f :: "string \<Rightarrow> real option"

definition JSON_FormatTranscript :: "env \<Rightarrow> FetchedTranscript \<Rightarrow> string + string" where
  "JSON_FormatTranscript e transcript =
     (let data = ToRawData transcript in
      case MarshalIndent e (JArr data) of
        Inl err \<Rightarrow> Inl err
      | Inr jsonBytes \<Rightarrow> Inr jsonBytes)"

definition JSON_FormatTranscripts :: "env \<Rightarrow> FetchedTranscript list \<Rightarrow> string + string" where
  "JSON_FormatTranscripts e transcripts =
     (let data = fold (\<lambda>transcript data. data @ [JArr (ToRawData transcript)]) transcripts [] in
      case MarshalIndent e (JArr data) of
        Inl err \<Rightarrow> Inl err
      | Inr jsonBytes \<Rightarrow> Inr jsonBytes)"

text \<open>
  Go's conversion \<open>int(x)\<close> of a \<open>float64\<close> drops the fraction (towards zero).
  The machine range of \<open>int\<close> is not modelled.
\<close>

definition go_int :: "real \<Rightarrow> int" where
  "go_int x = (if 0 \<le> x then \<lfloor>x\<rfloor> else \<lceil>x\<rceil>)"

definition secondsToTimestamp :: "real \<Rightarrow> int \<times> int \<times> int \<times> int" where
  "secondsToTimestamp time =
     (let hours = go_int (time / 3600);
          remainder = time - real_of_int hours * 3600;
          mins = go_int (remainder / 60);
          remainder = remainder - real_of_int mins * 60;
          secs = go_int remainder;
          ms = go_int ((remainder - real_of_int secs) * 1000)
      in (hours, mins, secs, ms))"

text \<open>The \<open>%d\<close>, \<open>%02d\<close> and \<open>%03d\<close> verbs of \<open>fmt.Sprintf\<close>.\<close>

fun string_of_nat :: "nat \<Rightarrow> string" where
  "string_of_nat n =
     (if n < 10 then [''0123456789'' ! n]
      else string_of_nat (n div 10) @ [''0123456789'' ! (n mod 10)])"

declare string_of_nat.simps [simp del]

definition zero_pad :: "nat \<Rightarrow> string \<Rightarrow> string" where
  "zero_pad w s = replicate (w - length s) CHR ''0'' @ s"

definition sprintf_d :: "nat \<Rightarrow> int \<Rightarrow> string" where
  "sprintf_d w x =
     (if x < 0 then CHR ''-'' # zero_pad (w - 1) (string_of_nat (nat (- x)))
      else zero_pad w (string_of_nat (nat x)))"

text \<open>
  The end time of snippet \<open>i\<close> as the loop of \<open>formatTranscript\<close> computes it.
  \<open>len(transcript.Snippets)-1\<close> is a signed \<open>int\<close>.
\<close>

definition snippet_end :: "FetchedTranscriptSnippet list \<Rightarrow> nat \<Rightarrow> real" where
  "snippet_end snippets i =
     (let snippet = snippets ! i;
          end0 = Start snippet + Duration snippet
      in if int i < int (length snippets) - 1 \<and> Start (snippets ! (i + 1)) < end0
         then Start (snippets ! (i + 1))
         else end0)"

definition timeText ::
  "(int \<Rightarrow> int \<Rightarrow> int \<Rightarrow> int \<Rightarrow> string) \<Rightarrow> FetchedTranscriptSnippet list \<Rightarrow> nat \<Rightarrow> string" where
  "timeText formatTimestamp snippets i =
     (let (h1, m1, s1, ms1) = secondsToTimestamp (Start (snippets ! i));
          (h2, m2, s2, ms2) = secondsToTimestamp (snippet_end snippets i)
      in formatTimestamp h1 m1 s1 ms1 @ '' --> '' @ formatTimestamp h2 m2 s2 ms2)"

definition formatTranscript ::
  "FetchedTranscript \<Rightarrow> (int \<Rightarrow> int \<Rightarrow> int \<Rightarrow> int \<Rightarrow> string) \<Rightarrow> (string list \<Rightarrow> string) \<Rightarrow>
   (nat \<Rightarrow> string \<Rightarrow> FetchedTranscriptSnippet \<Rightarrow> string) \<Rightarrow> string" where
  "formatTranscript transcript formatTimestamp formatHeader formatHelper =
     formatHeader
       (fold (\<lambda>i lines. lines @
                [formatHelper i (timeText formatTimestamp (Snippets transcript) i)
                   (Snippets transcript ! i)])
          [0..<length (Snippets transcript)] [])"

fun Join :: "string list \<Rightarrow> string \<Rightarrow> string" where
  "Join [] sep = []"
| "Join [x] sep = x"
| "Join (x # y # rest) sep = x @ sep @ Join (y # rest) sep"

definition SRT_formatTimestamp :: "int \<Rightarrow> int \<Rightarrow> int \<Rightarrow> int \<Rightarrow> string" where
  "SRT_formatTimestamp hours mins secs ms =
     sprintf_d 2 hours @ '':'' @ sprintf_d 2 mins @ '':'' @ sprintf_d 2 secs @ '','' @ sprintf_d 3 ms"

definition SRT_formatHeader :: "string list \<Rightarrow> string" where
  "SRT_formatHeader lines = Join lines [CHR 10, CHR 10] @ [CHR 10]"

definition SRT_formatHelper :: "nat \<Rightarrow> string \<Rightarrow> FetchedTranscriptSnippet \<Rightarrow> string" where
  "SRT_formatHelper i tt snippet =
     sprintf_d 0 (int i + 1) @ [CHR 10] @ tt @ [CHR 10] @ Text snippet"

definition SRT_FormatTranscript :: "FetchedTranscript \<Rightarrow> string" where
  "SRT_FormatTranscript transcript =
     formatTranscript transcript SRT_formatTimestamp SRT_formatHeader SRT_formatHelper"

definition WebVTT_formatTimestamp :: "int \<Rightarrow> int \<Rightarrow> int \<Rightarrow> int \<Rightarrow> string" where
  "WebVTT_formatTimestamp hours mins secs ms =
     sprintf_d 2 hours @ '':'' @ sprintf_d 2 mins @ '':'' @ sprintf_d 2 secs @ ''.'' @ sprintf_d 3 ms"

definition WebVTT_formatHeader :: "string list \<Rightarrow> string" where
  "WebVTT_formatHeader lines =
     ''WEBVTT'' @ [CHR 10, CHR 10] @ Join lines [CHR 10, CHR 10] @ [CHR 10]"

definition WebVTT_formatHelper :: "nat \<Rightarrow> string \<Rightarrow> FetchedTranscriptSnippet \<Rightarrow> string" where
  "WebVTT_formatHelper i tt snippet = tt @ [CHR 10] @ Text snippet"

definition WebVTT_FormatTranscript :: "FetchedTranscript \<Rightarrow> string" where
  "WebVTT_FormatTranscript transcript =
     formatTranscript transcript WebVTT_formatTimestamp WebVTT_formatHeader WebVTT_formatHelper"

section \<open>String helpers and the regular expressions of the package\<close>

definition HasPrefix :: "string \<Rightarrow> string \<Rightarrow> bool" where
  "HasPrefix s p = (take (length p) s = p)"

fun Contains :: "string \<Rightarrow> string \<Rightarrow> bool" where
  "Contains [] sub = (sub = [])"
| "Contains (c # cs) sub = (HasPrefix (c # cs) sub \<or> Contains cs sub)"

text \<open>\<open>strings.ReplaceAll(s, old, "")\<close> for a non-empty \<open>old\<close>.\<close>

function RemoveAll :: "string \<Rightarrow> string \<Rightarrow> string" where
  "RemoveAll [] old = []"
| "RemoveAll (c # cs) old =
     (if old \<noteq> [] \<and> HasPrefix (c # cs) old then RemoveAll (drop (length old) (c # cs)) old
      else c # RemoveAll cs old)"
  by pat_completeness auto
termination
  by (relation "measure (\<lambda>(s, old). length s)") (auto simp: neq_Nil_conv)

text \<open>
  A regular expression is written as a matcher anchored at the start of its input:
  it returns the captured group and the text after the match. Go's engine prefers
  the leftmost match, which \<open>find_first\<close> finds by trying each start in turn.
\<close>

fun find_first :: "(string \<Rightarrow> 'a option) \<Rightarrow> string \<Rightarrow> 'a option" where
  "find_first m [] = m []"
| "find_first m (c # cs) = (case m (c # cs) of Some r \<Rightarrow> Some r | None \<Rightarrow> find_first m cs)"

definition is_digit :: "char \<Rightarrow> bool" where
  "is_digit c = (48 \<le> (of_char c :: nat) \<and> (of_char c :: nat) \<le> 57)"

definition is_upper :: "char \<Rightarrow> bool" where
  "is_upper c = (65 \<le> (of_char c :: nat) \<and> (of_char c :: nat) \<le> 90)"

definition is_lower :: "char \<Rightarrow> bool" where
  "is_lower c = (97 \<le> (of_char c :: nat) \<and> (of_char c :: nat) \<le> 122)"

definition is_letter :: "char \<Rightarrow> bool" where
  "is_letter c = (is_upper c \<or> is_lower c)"

definition is_alnum :: "char \<Rightarrow> bool" where
  "is_alnum c = (is_letter c \<or> is_digit c)"


definition is_space :: "char \<Rightarrow> bool" where
  "is_space c = (c \<in> {CHR 9, CHR 10, CHR 12, CHR 13, CHR '' ''})"



text \<open>
  \<open>name="v" value="(.*?)"\<close>: after the literal, the shortest run of characters other
  than a newline that a double quote ends.
\<close>

definition DQ :: string where
  "DQ = [CHR 34]"

definition consent_value_literal :: string where
  "consent_value_literal = ''name='' @ DQ @ ''v'' @ DQ @ '' value='' @ DQ"

definition api_key_literal :: string where
  "api_key_literal = DQ @ ''INNERTUBE_API_KEY'' @ DQ @ '':''"

definition match_consent_value :: "string \<Rightarrow> string option" where
  "match_consent_value s =
     (let lit = consent_value_literal in
      if HasPrefix s lit then
        (let after = drop (length lit) s;
             grp = takeWhile (\<lambda>c. c \<noteq> CHR 34 \<and> c \<noteq> CHR 10) after
         in case dropWhile (\<lambda>c. c \<noteq> CHR 34 \<and> c \<noteq> CHR 10) after of
              [] \<Rightarrow> None
            | c # rest \<Rightarrow> if c = CHR 34 then Some grp else None)
      else None)"

text \<open>\<open>"INNERTUBE_API_KEY":\s*"([a-zA-Z0-9_-]+)"\<close>\<close>

definition is_key_char :: "char \<Rightarrow> bool" where
  "is_key_char c = (is_alnum c \<or> c = CHR ''_'' \<or> c = CHR ''-'')"

definition match_api_key :: "string \<Rightarrow> string option" where
  "match_api_key s =
     (let lit = api_key_literal in
      if HasPrefix s lit then
        (case dropWhile is_space (drop (length lit) s) of
           [] \<Rightarrow> None
         | q # after \<Rightarrow>
             if q = CHR 34 then
               (let grp = takeWhile is_key_char after in
                case dropWhile is_key_char after of
                  [] \<Rightarrow> None
                | c # rest \<Rightarrow> if grp \<noteq> [] \<and> c = CHR 34 then Some grp else None)
             else None)
      else None)"

section \<open>The transcript list fetcher\<close>

datatype request = GET string | POST string string json

record cookie =
  c_Name :: string
  c_Value :: string
  c_Domain :: string

text \<open>
  The state the fetcher changes: the calls made on the HTTP client so far, the
  \<open>SetCookies\<close> calls on its jar (the URL and the cookie), and the seconds slept.
\<close>

record net =
  calls :: "request list"
  Jar :: "(string \<times> cookie) list"
  slept :: "int list"

record TranscriptListFetcher =
  f_httpClient :: nat
  proxyConfig :: "ProxyConfig option"

definition WatchURLTemplate :: "string \<Rightarrow> string" where
  "WatchURLTemplate videoID = ''https://www.youtube.com/watch?v='' @ videoID"

definition InnertubeAPIURLTemplate :: "string \<Rightarrow> string" where
  "InnertubeAPIURLTemplate apiKey = ''https://www.youtube.com/youtubei/v1/player?key='' @ apiKey"

definition InnertubeContext :: "(string \<times> json) list" where
  "InnertubeContext =
     [(''context'', JObj [(''client'', JObj [(''clientName'', JStr ''ANDROID''),
                                              (''clientVersion'', JStr ''20.10.38'')])])]"

definition raiseHTTPErrors :: "int \<Rightarrow> string \<Rightarrow> string \<Rightarrow> error option" where
  "raiseHTTPErrors StatusCode Status videoID =
     (if StatusCode = 429 then Some (IpBlocked videoID)
      else if StatusCode \<ge> 400 then Some (YouTubeRequestFailed videoID (HTTPStatus StatusCode Status))
      else None)"

definition fetchHTML :: "env \<Rightarrow> string \<Rightarrow> net \<Rightarrow> (error + string) \<times> net" where
  "fetchHTML e videoID n =
     (let u = WatchURLTemplate videoID;
          n1 = n\<lparr>calls := calls n @ [GET u]\<rparr>
      in case server e (length (calls n)) of
           NoReply msg \<Rightarrow> (Inl (YouTubeRequestFailed videoID (TransportError msg)), n1)
         | Reply StatusCode Status b \<Rightarrow>
             (case raiseHTTPErrors StatusCode Status videoID of
                Some err \<Rightarrow> (Inl err, n1)
              | None \<Rightarrow>
                  (case b of
                     Broken msg \<Rightarrow> (Inl (YouTubeRequestFailed videoID (ReadError msg)), n1)
                   | Body bodyBytes \<Rightarrow> (Inr (UnescapeString e bodyBytes), n1))))"

definition createConsentCookie :: "string \<Rightarrow> string \<Rightarrow> net \<Rightarrow> error option \<times> net" where
  "createConsentCookie html videoID n =
     (case find_first match_consent_value html of
        None \<Rightarrow> (Some (FailedToCreateConsentCookie videoID), n)
      | Some v \<Rightarrow>
          (None, n\<lparr>Jar := Jar n @
             [(''https://youtube.com'',
               \<lparr>c_Name = ''CONSENT'', c_Value = ''YES+'' @ v, c_Domain = ''.youtube.com''\<rparr>)]\<rparr>))"

definition consent_marker :: string where
  "consent_marker = ''action='' @ DQ @ ''https://consent.youtube.com/s'' @ DQ"

definition fetchVideoHTML :: "env \<Rightarrow> string \<Rightarrow> net \<Rightarrow> (error + string) \<times> net" where
  "fetchVideoHTML e videoID n =
     (case fetchHTML e videoID n of
        (Inl err, n1) \<Rightarrow> (Inl err, n1)
      | (Inr html, n1) \<Rightarrow>
          if Contains html consent_marker then
            (case createConsentCookie html videoID n1 of
               (Some err, n2) \<Rightarrow> (Inl err, n2)
             | (None, n2) \<Rightarrow>
                 (case fetchHTML e videoID n2 of
                    (Inl err, n3) \<Rightarrow> (Inl err, n3)
                  | (Inr html2, n3) \<Rightarrow>
                      if Contains html2 consent_marker
                      then (Inl (FailedToCreateConsentCookie videoID), n3)
                      else (Inr html2, n3)))
          else (Inr html, n1))"

definition recaptcha_marker :: string where
  "recaptcha_marker = ''class='' @ DQ @ ''g-recaptcha'' @ DQ"

definition extractInnertubeAPIKey :: "string \<Rightarrow> string \<Rightarrow> error + string" where
  "extractInnertubeAPIKey html videoID =
     (case find_first match_api_key html of
        Some k \<Rightarrow> Inr k
      | None \<Rightarrow>
          if Contains html recaptcha_marker then Inl (IpBlocked videoID)
          else Inl (YouTubeDataUnparsable videoID))"

definition fetchInnertubeData ::
  "env \<Rightarrow> string \<Rightarrow> string \<Rightarrow> net \<Rightarrow> (error + (string \<times> json) list) \<times> net" where
  "fetchInnertubeData e videoID apiKey n =
     (let u = InnertubeAPIURLTemplate apiKey;
          requestBody = JObj [(''context'', the (map_of InnertubeContext ''context'')),
                              (''videoId'', JStr videoID)];
          n1 = n\<lparr>calls := calls n @ [POST u ''application/json'' requestBody]\<rparr>
      in case server e (length (calls n)) of
           NoReply msg \<Rightarrow> (Inl (YouTubeRequestFailed videoID (TransportError msg)), n1)
         | Reply StatusCode Status b \<Rightarrow>
             (case raiseHTTPErrors StatusCode Status videoID of
                Some err \<Rightarrow> (Inl err, n1)
              | None \<Rightarrow>
                  (case b of
                     Broken msg \<Rightarrow> (Inl (YouTubeRequestFailed videoID (ReadError msg)), n1)
                   | Body bodyBytes \<Rightarrow>
                       (case Decode e bodyBytes of
                          Inl msg \<Rightarrow> (Inl (YouTubeRequestFailed videoID (ParseError msg)), n1)
                        | Inr result \<Rightarrow> (Inr result, n1)))))"

text \<open>Type assertions in the comma-ok form.\<close>

definition as_obj :: "json option \<Rightarrow> (string \<times> json) list option" where
  "as_obj v = (case v of Some (JObj kvs) \<Rightarrow> Some kvs | _ \<Rightarrow> None)"

definition as_arr :: "json option \<Rightarrow> json list option" where
  "as_arr v = (case v of Some (JArr xs) \<Rightarrow> Some xs | _ \<Rightarrow> None)"

definition as_str :: "json option \<Rightarrow> string option" where
  "as_str v = (case v of Some (JStr s) \<Rightarrow> Some s | _ \<Rightarrow> None)"

definition as_bool :: "json option \<Rightarrow> bool option" where
  "as_bool v = (case v of Some (JBool b) \<Rightarrow> Some b | _ \<Rightarrow> None)"

definition PlayabilityStatusOK :: string where
  "PlayabilityStatusOK = ''OK''"

definition PlayabilityStatusError :: string where
  "PlayabilityStatusError = ''ERROR''"

definition PlayabilityStatusLoginRequired :: string where
  "PlayabilityStatusLoginRequired = ''LOGIN_REQUIRED''"

definition PlayabilityFailedReasonBotDetected :: string where
  "PlayabilityFailedReasonBotDetected = ''Sign in to confirm you'' @ [CHR 39] @ ''re not a bot''"

definition PlayabilityFailedReasonAgeRestricted :: string where
  "PlayabilityFailedReasonAgeRestricted = ''This video may be inappropriate for some users.''"

definition PlayabilityFailedReasonVideoUnavailable :: string where
  "PlayabilityFailedReasonVideoUnavailable = ''This video is unavailable''"

text \<open>The loop over \<open>runs\<close> that collects the sub-reasons.\<close>

fun run_texts :: "json list \<Rightarrow> string list \<Rightarrow> string list" where
  "run_texts [] subReasons = subReasons"
| "run_texts (run # rest) subReasons =
     (case as_obj (Some run) of
        None \<Rightarrow> run_texts rest subReasons
      | Some runMap \<Rightarrow>
          (case as_str (map_of runMap ''text'') of
             None \<Rightarrow> run_texts rest subReasons
           | Some t \<Rightarrow> run_texts rest (subReasons @ [t])))"

definition sub_reasons :: "(string \<times> json) list \<Rightarrow> string list" where
  "sub_reasons playabilityStatusData =
     (case as_obj (map_of playabilityStatusData ''errorScreen'') of
        None \<Rightarrow> []
      | Some errorScreen \<Rightarrow>
          (case as_obj (map_of errorScreen ''playerErrorMessageRenderer'') of
             None \<Rightarrow> []
           | Some playerError \<Rightarrow>
               (case as_obj (map_of playerError ''subreason'') of
                  None \<Rightarrow> []
                | Some subreason \<Rightarrow>
                    (case as_arr (map_of subreason ''runs'') of
                       None \<Rightarrow> []
                     | Some runs \<Rightarrow> run_texts runs []))))"

definition assertPlayability :: "(string \<times> json) list \<Rightarrow> string \<Rightarrow> error option" where
  "assertPlayability innertubeData videoID =
     (case as_obj (map_of innertubeData ''playabilityStatus'') of
        None \<Rightarrow> None
      | Some playabilityStatusData \<Rightarrow>
          (case as_str (map_of playabilityStatusData ''status'') of
             None \<Rightarrow> None
           | Some status \<Rightarrow>
               if status = PlayabilityStatusOK then None
               else
                 (let reason = (case as_str (map_of playabilityStatusData ''reason'') of
                                  Some r \<Rightarrow> r | None \<Rightarrow> [])
                  in
                  if status = PlayabilityStatusLoginRequired
                     \<and> reason = PlayabilityFailedReasonBotDetected
                  then Some (RequestBlocked videoID None)
                  else if status = PlayabilityStatusLoginRequired
                     \<and> reason = PlayabilityFailedReasonAgeRestricted
                  then Some (AgeRestricted videoID)
                  else if status = PlayabilityStatusError
                     \<and> reason = PlayabilityFailedReasonVideoUnavailable
                  then (if HasPrefix videoID ''http://'' \<or> HasPrefix videoID ''https://''
                        then Some (InvalidVideoId videoID)
                        else Some (VideoUnavailable videoID))
                  else Some (VideoUnplayable videoID reason (sub_reasons playabilityStatusData)))))"

definition extractVideoDetailsAndCaptionsJSON ::
  "(string \<times> json) list \<Rightarrow> string \<Rightarrow> error + ((string \<times> json) list \<times> (string \<times> json) list)" where
  "extractVideoDetailsAndCaptionsJSON innertubeData videoID =
     (case assertPlayability innertubeData videoID of
        Some err \<Rightarrow> Inl err
      | None \<Rightarrow>
          (case as_obj (map_of innertubeData ''videoDetails'') of
             None \<Rightarrow> Inl (YouTubeDataUnparsable videoID)
           | Some videoDetailsJSON \<Rightarrow>
               (case as_obj (map_of innertubeData ''captions'') of
                  None \<Rightarrow> Inl (TranscriptsDisabled videoID)
                | Some captions \<Rightarrow>
                    (case as_obj (map_of captions ''playerCaptionsTracklistRenderer'') of
                       None \<Rightarrow> Inl (TranscriptsDisabled videoID)
                     | Some captionsJSON \<Rightarrow>
                         (case map_of captionsJSON ''captionTracks'' of
                            None \<Rightarrow> Inl (TranscriptsDisabled videoID)
                          | Some tracks \<Rightarrow> Inr (videoDetailsJSON, captionsJSON))))))"

text \<open>
  The retry is a type assertion \<open>err.(*RequestBlocked)\<close> on the error of the last
  step only; the errors of the three steps before it are returned as they are.
  \<open>time.Sleep\<close> is recorded in \<open>slept\<close>, in seconds.
\<close>

definition allowed_retries :: "TranscriptListFetcher \<Rightarrow> int" where
  "allowed_retries tlf = (case proxyConfig tlf of None \<Rightarrow> 0 | Some c \<Rightarrow> RetriesWhenBlocked c)"

function fetchVideoDetailsAndCaptionsJSON ::
  "env \<Rightarrow> TranscriptListFetcher \<Rightarrow> string \<Rightarrow> int \<Rightarrow> net \<Rightarrow>
   (error + ((string \<times> json) list \<times> (string \<times> json) list)) \<times> net" where
  "fetchVideoDetailsAndCaptionsJSON e tlf videoID tryNumber n =
     (case fetchVideoHTML e videoID n of
        (Inl err, n1) \<Rightarrow> (Inl err, n1)
      | (Inr html, n1) \<Rightarrow>
          (case extractInnertubeAPIKey html videoID of
             Inl err \<Rightarrow> (Inl err, n1)
           | Inr apiKey \<Rightarrow>
               (case fetchInnertubeData e videoID apiKey n1 of
                  (Inl err, n2) \<Rightarrow> (Inl err, n2)
                | (Inr innertubeData, n2) \<Rightarrow>
                    (case extractVideoDetailsAndCaptionsJSON innertubeData videoID of
                       Inr r \<Rightarrow> (Inr r, n2)
                     | Inl err \<Rightarrow>
                         (case err of
                            RequestBlocked vid pc \<Rightarrow>
                              if tryNumber + 1 < allowed_retries tlf then
                                fetchVideoDetailsAndCaptionsJSON e tlf videoID (tryNumber + 1)
                                  (n2\<lparr>slept := slept n2 @ [tryNumber + 1]\<rparr>)
                              else (Inl (RequestBlocked vid (proxyConfig tlf)), n2)
                          | _ \<Rightarrow> (Inl err, n2))))))"
  by pat_completeness auto
termination
  by (relation "measure (\<lambda>(e, tlf, videoID, tryNumber, n). nat (allowed_retries tlf - tryNumber))") auto

declare fetchVideoDetailsAndCaptionsJSON.simps [simp del]

section \<open>Building the catalog\<close>

text \<open>
  A Go function either returns or panics. The unchecked assertion
  \<open>videoDetailsJSON["title"].(string)\<close> panics when the key is missing or its value is
  not a string.
\<close>

datatype 'a outcome = Panic string | Returned 'a

definition translation_language_of :: "json \<Rightarrow> TranslationLanguage option" where
  "translation_language_of lang =
     (case as_obj (Some lang) of
        None \<Rightarrow> None
      | Some tlMap \<Rightarrow>
          (case as_obj (map_of tlMap ''languageName'') of
             None \<Rightarrow> None
           | Some langName \<Rightarrow>
               (case as_arr (map_of langName ''runs'') of
                  None \<Rightarrow> None
                | Some runs \<Rightarrow>
                    if length runs > 0 then
                      (case as_obj (Some (runs ! 0)) of
                         None \<Rightarrow> None
                       | Some run \<Rightarrow>
                           (case as_str (map_of run ''text'') of
                              None \<Rightarrow> None
                            | Some t \<Rightarrow>
                                (case as_str (map_of tlMap ''languageCode'') of
                                   None \<Rightarrow> None
                                 | Some langCode \<Rightarrow>
                                     Some \<lparr>tl_Language = t, tl_LanguageCode = langCode\<rparr>)))
                    else None)))"

definition parse_translation_languages :: "(string \<times> json) list \<Rightarrow> TranslationLanguage list" where
  "parse_translation_languages captionsJSON =
     (case as_arr (map_of captionsJSON ''translationLanguages'') of
        None \<Rightarrow> []
      | Some translationLangs \<Rightarrow>
          fold (\<lambda>lang acc. case translation_language_of lang of
                              None \<Rightarrow> acc
                            | Some x \<Rightarrow> acc @ [x])
            translationLangs [])"

definition caption_language_name :: "(string \<times> json) list \<Rightarrow> string" where
  "caption_language_name captionMap =
     (case as_obj (map_of captionMap ''name'') of
        None \<Rightarrow> []
      | Some name \<Rightarrow>
          (case as_arr (map_of name ''runs'') of
             None \<Rightarrow> []
           | Some runs \<Rightarrow>
               if length runs > 0 then
                 (case as_obj (Some (runs ! 0)) of
                    None \<Rightarrow> []
                  | Some run \<Rightarrow>
                      (case as_str (map_of run ''text'') of None \<Rightarrow> [] | Some t \<Rightarrow> t))
               else []))"

text \<open>
  The loop over \<open>captionTracks\<close>. \<open>thumbnail\<close> stands for
  \<open>fmt.Sprintf(ThumbnailURLTemplate, videoID)\<close>: the template is a constant of
  the package, taken here as a parameter. The arguments of \<open>NewTranscript\<close> are evaluated in
  order, so the title assertion is the first thing that can fail.
\<close>

fun caption_loop ::
  "nat \<Rightarrow> string \<Rightarrow> (string \<times> json) list \<Rightarrow> (string \<Rightarrow> string) \<Rightarrow> TranslationLanguage list \<Rightarrow>
   json list \<Rightarrow> (string \<rightharpoonup> Transcript) \<times> (string \<rightharpoonup> Transcript) \<Rightarrow>
   ((string \<rightharpoonup> Transcript) \<times> (string \<rightharpoonup> Transcript)) outcome" where
  "caption_loop client videoID videoDetailsJSON thumbnail tls [] dicts = Returned dicts"
| "caption_loop client videoID videoDetailsJSON thumbnail tls (caption # rest) dicts =
     (case as_obj (Some caption) of
        None \<Rightarrow> caption_loop client videoID videoDetailsJSON thumbnail tls rest dicts
      | Some captionMap \<Rightarrow>
          (let kind = (case as_str (map_of captionMap ''kind'') of Some k \<Rightarrow> k | None \<Rightarrow> []);
               isGenerated = (kind = ''asr'')
           in case as_str (map_of captionMap ''languageCode'') of
                None \<Rightarrow> caption_loop client videoID videoDetailsJSON thumbnail tls rest dicts
              | Some languageCode \<Rightarrow>
                  (let languageName = caption_language_name captionMap in
                   case as_str (map_of captionMap ''baseUrl'') of
                     None \<Rightarrow> caption_loop client videoID videoDetailsJSON thumbnail tls rest dicts
                   | Some baseURL0 \<Rightarrow>
                       (let baseURL = RemoveAll baseURL0 ''&fmt=srv3'';
                            translationLangs =
                              (case as_bool (map_of captionMap ''isTranslatable'') of
                                 Some True \<Rightarrow> tls
                               | _ \<Rightarrow> [])
                        in case as_str (map_of videoDetailsJSON ''title'') of
                             None \<Rightarrow> Panic ''interface conversion: interface {} is not string''
                           | Some title \<Rightarrow>
                               (let t = NewTranscript client videoID title (thumbnail videoID)
                                          baseURL languageName languageCode isGenerated
                                          translationLangs
                                in caption_loop client videoID videoDetailsJSON thumbnail tls rest
                                     (if isGenerated
                                      then (fst dicts, (snd dicts)(languageCode \<mapsto> t))
                                      else ((fst dicts)(languageCode \<mapsto> t), snd dicts)))))))"

definition NewTranscriptList ::
  "string \<Rightarrow> (string \<rightharpoonup> Transcript) \<Rightarrow> (string \<rightharpoonup> Transcript) \<Rightarrow> TranslationLanguage list \<Rightarrow>
   TranscriptList" where
  "NewTranscriptList videoID manual generated tls =
     \<lparr> tl_VideoID = videoID, manuallyCreatedTranscripts = manual,
       generatedTranscripts = generated, translationLanguages = tls \<rparr>"

definition BuildTranscriptList ::
  "(string \<Rightarrow> string) \<Rightarrow> nat \<Rightarrow> string \<Rightarrow> (string \<times> json) list \<Rightarrow> (string \<times> json) list \<Rightarrow>
   (error + TranscriptList) outcome" where
  "BuildTranscriptList thumbnail client videoID videoDetailsJSON captionsJSON =
     (let tls = parse_translation_languages captionsJSON in
      case as_arr (map_of captionsJSON ''captionTracks'') of
        None \<Rightarrow> Returned (Inr (NewTranscriptList videoID Map.empty Map.empty tls))
      | Some captionTracks \<Rightarrow>
          (case caption_loop client videoID videoDetailsJSON thumbnail tls captionTracks
                  (Map.empty, Map.empty) of
             Panic msg \<Rightarrow> Panic msg
           | Returned dicts \<Rightarrow>
               Returned (Inr (NewTranscriptList videoID (fst dicts) (snd dicts) tls))))"

text \<open>\<open>TranscriptListFetcher.Fetch\<close>: acquisition, then the catalog.\<close>

definition Fetch ::
  "(string \<Rightarrow> string) \<Rightarrow> env \<Rightarrow> TranscriptListFetcher \<Rightarrow> string \<Rightarrow> net \<Rightarrow>
   (error + TranscriptList) outcome \<times> net" where
  "Fetch thumbnail e tlf videoID n =
     (case fetchVideoDetailsAndCaptionsJSON e tlf videoID 0 n of
        (Inl err, n1) \<Rightarrow> (Returned (Inl err), n1)
      | (Inr (videoDetailsJSON, captionsJSON), n1) \<Rightarrow>
          (BuildTranscriptList thumbnail (f_httpClient tlf) videoID videoDetailsJSON captionsJSON, n1))"

section \<open>The snippet parser\<close>

















section \<open>Example data\<close>

definition example_spanish :: "TranslationLanguage list" where
  "example_spanish = [\<lparr>tl_Language = ''Spanish'', tl_LanguageCode = ''es''\<rparr>]"

definition example_A :: Transcript where
  "example_A =
     NewTranscript 0 ''vid'' ''title'' ''thumb'' ''https://a'' ''English'' ''en'' False example_spanish"

definition example_B :: Transcript where
  "example_B =
     NewTranscript 0 ''vid'' ''title'' ''thumb'' ''https://b'' ''English (auto-generated)'' ''en'' True []"

definition example_C :: Transcript where
  "example_C = NewTranscript 0 ''vid'' ''title'' ''thumb'' ''https://c'' ''Chinese'' ''zh'' True []"

definition example_catalog :: TranscriptList where
  "example_catalog =
     NewTranscriptList ''vid'' [''en'' \<mapsto> example_A] [''en'' \<mapsto> example_B, ''zh'' \<mapsto> example_C]
       example_spanish"

definition example_transcript :: FetchedTranscript where
  "example_transcript =
     \<lparr> ft_Title = ''title'', ft_ThumbnailURL = ''thumb'',
       Snippets = [\<lparr>Text = ''Hello'', Start = 0, Duration = 10\<rparr>,
                   \<lparr>Text = ''World'', Start = 5, Duration = 3 / 2\<rparr>,
                   \<lparr>Text = ''Again'', Start = 3, Duration = 1\<rparr>],
       ft_VideoID = ''vid'', ft_Language = ''English'', ft_LanguageCode = ''en'',
       ft_IsGenerated = False \<rparr>"


definition example_player_bot :: "(string \<times> json) list" where
  "example_player_bot =
     [(''playabilityStatus'',
       JObj [(''status'', JStr ''LOGIN_REQUIRED''),
             (''reason'', JStr PlayabilityFailedReasonBotDetected)])]"

definition example_player_age :: "(string \<times> json) list" where
  "example_player_age =
     [(''playabilityStatus'',
       JObj [(''status'', JStr ''LOGIN_REQUIRED''),
             (''reason'', JStr ''This video may be inappropriate for some users.'')])]"

definition example_player_private :: "(string \<times> json) list" where
  "example_player_private =
     [(''playabilityStatus'',
       JObj [(''status'', JStr ''LOGIN_REQUIRED''),
             (''reason'', JStr ''This video is private''),
             (''errorScreen'',
              JObj [(''playerErrorMessageRenderer'',
                     JObj [(''subreason'',
                            JObj [(''runs'', JArr [JObj [(''text'', JStr ''Sign in'')],
                                                   JNum 3,
                                                   JObj [(''text'', JStr ''to watch'')]])])])])])]"

definition example_player_gone :: "(string \<times> json) list" where
  "example_player_gone =
     [(''playabilityStatus'',
       JObj [(''status'', JStr ''ERROR''),
             (''reason'', JStr ''This video is unavailable'')])]"

definition example_player_live :: "(string \<times> json) list" where
  "example_player_live =
     [(''playabilityStatus'',
       JObj [(''status'', JStr ''LIVE_STREAM_OFFLINE''),
             (''reason'', JStr ''Offline''),
             (''errorScreen'', JStr ''malformed'')])]"

definition example_track_en :: json where
  "example_track_en =
     JObj [(''baseUrl'', JStr ''https://www.youtube.com/api/timedtext?v=vid&lang=en&fmt=srv3''),
           (''languageCode'', JStr ''en''),
           (''name'', JObj [(''runs'', JArr [JObj [(''text'', JStr ''English'')]])]),
           (''isTranslatable'', JBool True)]"

definition example_captions :: "(string \<times> json) list" where
  "example_captions =
     [(''captionTracks'', JArr [example_track_en]),
      (''translationLanguages'',
       JArr [JObj [(''languageCode'', JStr ''es''),
                   (''languageName'', JObj [(''runs'', JArr [JObj [(''text'', JStr ''Spanish'')]])])]])]"

definition example_player_untitled :: "(string \<times> json) list" where
  "example_player_untitled =
     [(''playabilityStatus'', JObj [(''status'', JStr ''OK'')]),
      (''videoDetails'', JObj [(''videoId'', JStr ''vid'')]),
      (''captions'', JObj [(''playerCaptionsTracklistRenderer'', JObj example_captions)])]"

definition example_thumbnail :: "string \<Rightarrow> string" where
  "example_thumbnail videoID = ''https://i.ytimg.com/vi/'' @ videoID @ ''/hqdefault.jpg''"

definition example_root :: element where
  "example_root =
     Element ''transcript'' [] []
       [Element ''text'' [(''start'', ''1.5''), (''dur'', ''abc'')] ''<b>hi</b> <i>there</i>'' [],
        Element ''meta'' [] ''skipped'' [],
        Element ''text'' [(''start'', ''1.5'')] [] [],
        Element ''text'' [(''dur'', ''1.5'')]
          (''<font color='' @ DQ @ ''red'' @ DQ @ ''>hi</font>'') []]"

text \<open>
  Example environments: the server answers from a fixed list of replies and then
  refuses; no text holds an HTML entity, so unescaping changes nothing; the decoder
  knows two player responses by name and the XML reader one document; the scanner
  reads two numbers.
\<close>

definition example_decode :: "string \<Rightarrow> string + (string \<times> json) list" where
  "example_decode b =
     (if b = ''bot'' then Inr example_player_bot
      else if b = ''untitled'' then Inr example_player_untitled
      else Inl ''invalid character'')"

definition example_env :: "reply list \<Rightarrow> env" where
  "example_env replies =
     \<lparr> server = (\<lambda>i. if i < length replies then replies ! i else NoReply ''connection refused''),
       UnescapeString = (\<lambda>s. s),
       Decode = example_decode,
       MarshalIndent = (\<lambda>v. Inl ''unsupported''),
       Unmarshal = (\<lambda>s. Inl ''unexpected end of JSON input''),
       ReadFromString = (\<lambda>s. if s = ''doc'' then Inr (Some example_root) else Inr None),
       Sscanf_f = (\<lambda>s. if s = ''0.0'' then Some 0 else if s = ''1.5'' then Some (3 / 2) else None) \<rparr>"

definition empty_net :: net where
  "empty_net = \<lparr>calls = [], Jar = [], slept = []\<rparr>"

definition example_consent_page :: string where
  "example_consent_page =
     ''<form '' @ consent_marker @ ''><input '' @ consent_value_literal @ ''cb.20240101'' @ DQ @ ''></form>''"

definition example_consent_page_no_value :: string where
  "example_consent_page_no_value = ''<form '' @ consent_marker @ ''></form>''"

definition example_watch_page :: string where
  "example_watch_page = ''{'' @ api_key_literal @ '' '' @ DQ @ ''AIza_Sy-1'' @ DQ @ ''}''"

definition example_captcha_page :: string where
  "example_captcha_page = ''<div '' @ recaptcha_marker @ ''></div>''"

definition example_proxy :: ProxyConfig where
  "example_proxy = WebshareProxyConfig ''user'' ''secret'' [] 3 ''p.webshare.io'' 80"

definition example_fetcher :: TranscriptListFetcher where
  "example_fetcher = \<lparr>f_httpClient = 0, proxyConfig = Some example_proxy\<rparr>"

text \<open>
  The consent step as the specification words it: a first page with the marker
  leads to one more cookie in the jar and exactly one more request for the page.
\<close>

definition spec_consent_refetch :: "env \<Rightarrow> string \<Rightarrow> net \<Rightarrow> bool" where
  "spec_consent_refetch e videoID n =
     (case server e (length (calls n)) of
        Reply code status (Body b) \<Rightarrow>
          code \<noteq> 429 \<and> code < 400 \<and> Contains (UnescapeString e b) consent_marker \<longrightarrow>
            length (Jar (snd (fetchVideoHTML e videoID n))) = length (Jar n) + 1
            \<and> calls (snd (fetchVideoHTML e videoID n))
                = calls n @ [GET (WatchURLTemplate videoID), GET (WatchURLTemplate videoID)]
      | _ \<Rightarrow> True)"

text \<open>
  An example codec that knows one document: it encodes the raw data of the example
  transcript and decodes that encoding back.
\<close>

definition example_codec_env :: env where
  "example_codec_env =
     (example_env [])
       \<lparr> MarshalIndent :=
           (\<lambda>v. if v = JArr (ToRawData example_transcript) then Inr ''[3 items]''
                else Inl ''unsupported''),
         Unmarshal :=
           (\<lambda>s. if s = ''[3 items]'' then Inr (JArr (ToRawData example_transcript))
                else Inl ''invalid character'') \<rparr>"

section \<open>Catalog queries: properties\<close>

lemma lookup_codes_find:
  "lookup_codes ds codes =
     (case find (\<lambda>c. lookup_dicts ds c \<noteq> None) codes of
        None \<Rightarrow> None
      | Some c \<Rightarrow> lookup_dicts ds c)"
  by (induction codes) (auto split: option.splits)

text \<open>
  C1. \<open>FindTranscript\<close> takes the first preferred code, in the caller's order, that
  either map holds; for that code the manually created track wins over the generated
  one. When no preferred code is in either map the result is the no-transcript-found
  error with the requested codes and the catalog (which the error renders as the
  summary).
\<close>

theorem FindTranscript_first_hit:
  "FindTranscript catalog languageCodes =
     (case find (\<lambda>c. manuallyCreatedTranscripts catalog c \<noteq> None
                      \<or> generatedTranscripts catalog c \<noteq> None) languageCodes of
        None \<Rightarrow> Inl (NoTranscriptFound (tl_VideoID catalog) languageCodes catalog)
      | Some c \<Rightarrow>
          (case manuallyCreatedTranscripts catalog c of
             Some t \<Rightarrow> Inr t
           | None \<Rightarrow> Inr (the (generatedTranscripts catalog c))))"
proof -
  have eq: "(\<lambda>c. lookup_dicts [manuallyCreatedTranscripts catalog, generatedTranscripts catalog] c \<noteq> None)
      = (\<lambda>c. manuallyCreatedTranscripts catalog c \<noteq> None \<or> generatedTranscripts catalog c \<noteq> None)"
    by (auto simp: fun_eq_iff split: option.splits)
  show ?thesis
    unfolding FindTranscript_def findTranscript_def
    apply (simp only: lookup_codes_find eq)
    apply (auto split: option.splits dest: find_Some_iff[THEN iffD1])
    done
qed

theorem FindTranscript_first_hit_witness:
  "FindTranscript example_catalog [''en''] = Inr example_A
   \<and> FindTranscript example_catalog [''zh'', ''en''] = Inr example_C
   \<and> FindTranscript example_catalog [''fr'', ''de'']
       = Inl (NoTranscriptFound ''vid'' [''fr'', ''de''] example_catalog)"
  using FindTranscript_first_hit [of example_catalog "[''en'']"]
    FindTranscript_first_hit [of example_catalog "[''zh'', ''en'']"]
    FindTranscript_first_hit [of example_catalog "[''fr'', ''de'']"]
  by (simp add: example_catalog_def NewTranscriptList_def)

section \<open>Transcript handles: properties\<close>

lemma fill_map_map_of:
  "fill_map m tls = m ++ map_of (rev (map (\<lambda>l. (tl_LanguageCode l, tl_Language l)) tls))"
proof (induction tls arbitrary: m)
  case Nil
  then show ?case by simp
next
  case (Cons l tls)
  show ?case
    by (auto simp: Cons.IH fun_eq_iff map_add_def split: option.splits)
qed

lemma fill_map_dom:
  "dom (fill_map m tls) = dom m \<union> tl_LanguageCode ` set tls"
  by (induction tls arbitrary: m) auto

text \<open>Every handle that \<open>NewTranscript\<close> makes has the map of its list.\<close>

lemma NewTranscript_map:
  "translationLanguagesMap (NewTranscript c v t th u l lc g tls) =
     fill_map Map.empty (TranslationLanguages (NewTranscript c v t th u l lc g tls))"
  by (simp add: NewTranscript_def)

text \<open>
  C2. For a handle at a valid address whose map is the map of its translation list
  (as \<open>NewTranscript\<close> builds it): \<open>Translate\<close> fails with not-translatable exactly
  when the list is empty; with a non-empty list it fails with
  translation-language-not-available when the target code is not in the list; and
  otherwise it allocates a new handle with \<open>&tlang=<code>\<close> appended to the URL, the
  language taken from the map, the target code, \<open>IsGenerated\<close> true and no translation
  languages. No handle already on the heap changes.
\<close>

theorem Translate_cases:
  assumes valid: "p < length h"
    and built: "translationLanguagesMap (h ! p) = fill_map Map.empty (TranslationLanguages (h ! p))"
  shows "((snd (Translate h p code) = Inl (NotTranslatable (VideoID (h ! p))))
            = (TranslationLanguages (h ! p) = []))
       \<and> (TranslationLanguages (h ! p) \<noteq> []
            \<and> code \<notin> tl_LanguageCode ` set (TranslationLanguages (h ! p))
          \<longrightarrow> Translate h p code = (h, Inl (TranslationLanguageNotAvailable (VideoID (h ! p)))))
       \<and> (TranslationLanguages (h ! p) \<noteq> []
            \<and> code \<in> tl_LanguageCode ` set (TranslationLanguages (h ! p))
          \<longrightarrow> (\<exists>lang. translationLanguagesMap (h ! p) code = Some lang
                \<and> Translate h p code =
                    (h @ [\<lparr> httpClient = httpClient (h ! p), VideoID = VideoID (h ! p),
                            url = url (h ! p) @ ''&tlang='' @ code, Title = Title (h ! p),
                            ThumbnailURL = ThumbnailURL (h ! p), Language = lang,
                            LanguageCode = code, IsGenerated = True,
                            TranslationLanguages = [],
                            translationLanguagesMap = Map.empty \<rparr>],
                     Inr (length h))))
       \<and> (\<forall>q < length h. fst (Translate h p code) ! q = h ! q)"
proof -
  let ?t = "h ! p"
  have dom: "dom (translationLanguagesMap ?t) = tl_LanguageCode ` set (TranslationLanguages ?t)"
    by (simp add: built fill_map_dom)
  have a: "(snd (Translate h p code) = Inl (NotTranslatable (VideoID ?t)))
            = (TranslationLanguages ?t = [])"
    by (auto simp: Translate_def IsTranslatable_def Let_def split: option.splits)
  have b: "TranslationLanguages ?t \<noteq> [] \<and> code \<notin> tl_LanguageCode ` set (TranslationLanguages ?t)
      \<longrightarrow> Translate h p code = (h, Inl (TranslationLanguageNotAvailable (VideoID ?t)))"
    using dom by (auto simp: Translate_def IsTranslatable_def Let_def split: option.splits)
  have c: "TranslationLanguages ?t \<noteq> [] \<and> code \<in> tl_LanguageCode ` set (TranslationLanguages ?t)
      \<longrightarrow> (\<exists>lang. translationLanguagesMap ?t code = Some lang
                \<and> Translate h p code =
                    (h @ [\<lparr> httpClient = httpClient ?t, VideoID = VideoID ?t,
                            url = url ?t @ ''&tlang='' @ code, Title = Title ?t,
                            ThumbnailURL = ThumbnailURL ?t, Language = lang,
                            LanguageCode = code, IsGenerated = True,
                            TranslationLanguages = [],
                            translationLanguagesMap = Map.empty \<rparr>],
                     Inr (length h)))"
  proof (intro impI)
    assume nonempty: "TranslationLanguages ?t \<noteq> [] \<and> code \<in> tl_LanguageCode ` set (TranslationLanguages ?t)"
    then have "code \<in> dom (translationLanguagesMap ?t)" using dom by simp
    then obtain lang where l: "translationLanguagesMap ?t code = Some lang" by auto
    with nonempty show "\<exists>lang. translationLanguagesMap ?t code = Some lang
                \<and> Translate h p code =
                    (h @ [\<lparr> httpClient = httpClient ?t, VideoID = VideoID ?t,
                            url = url ?t @ ''&tlang='' @ code, Title = Title ?t,
                            ThumbnailURL = ThumbnailURL ?t, Language = lang,
                            LanguageCode = code, IsGenerated = True,
                            TranslationLanguages = [],
                            translationLanguagesMap = Map.empty \<rparr>],
                     Inr (length h))"
      by (simp add: Translate_def IsTranslatable_def Let_def NewTranscript_def)
  qed
  have d: "\<forall>q < length h. fst (Translate h p code) ! q = h ! q"
    by (auto simp: Translate_def Let_def nth_append split: option.splits)
  from a b c d show ?thesis by blast
qed

theorem Translate_cases_witness:
  "Translate [example_A] 0 ''es'' =
     ([example_A,
       NewTranscript 0 ''vid'' ''title'' ''thumb'' ''https://a&tlang=es'' ''Spanish'' ''es'' True []],
      Inr 1)
   \<and> Translate [example_A] 0 ''fr'' = ([example_A], Inl (TranslationLanguageNotAvailable ''vid''))
   \<and> snd (Translate [example_B] 0 ''es'') = Inl (NotTranslatable ''vid'')"
  using Translate_cases [of 0 "[example_A]" "''es''"] Translate_cases [of 0 "[example_A]" "''fr''"]
    Translate_cases [of 0 "[example_B]" "''es''"]
  by (simp add: example_A_def example_B_def example_spanish_def NewTranscript_def)

section \<open>Formatters: properties\<close>

lemma fold_append_map:
  "fold (\<lambda>i acc. acc @ [f i]) xs acc0 = acc0 @ map f xs"
  by (induction xs arbitrary: acc0) auto

lemma formatTranscript_map:
  "formatTranscript transcript formatTimestamp formatHeader formatHelper =
     formatHeader
       (map (\<lambda>i. formatHelper i (timeText formatTimestamp (Snippets transcript) i)
                    (Snippets transcript ! i))
          [0..<length (Snippets transcript)])"
  by (simp add: formatTranscript_def fold_append_map)

text \<open>
  C3. The line of snippet \<open>i\<close> shows the start of the snippet and an end that is
  start plus duration, unless a next snippet starts before that, in which case it is
  the start of the next snippet. Only the next snippet is looked at. So the end that
  is shown is never after the start of the next snippet.
\<close>

theorem formatTranscript_end_clamped:
  assumes "i < length (Snippets transcript)"
  shows "formatTranscript transcript formatTimestamp formatHeader formatHelper =
           formatHeader
             (map (\<lambda>j. formatHelper j (timeText formatTimestamp (Snippets transcript) j)
                          (Snippets transcript ! j))
                [0..<length (Snippets transcript)])
       \<and> timeText formatTimestamp (Snippets transcript) i =
           (case secondsToTimestamp (Start (Snippets transcript ! i)) of
              (h1, m1, s1, ms1) \<Rightarrow>
                (case secondsToTimestamp (snippet_end (Snippets transcript) i) of
                   (h2, m2, s2, ms2) \<Rightarrow>
                     formatTimestamp h1 m1 s1 ms1 @ '' --> '' @ formatTimestamp h2 m2 s2 ms2))
       \<and> snippet_end (Snippets transcript) i =
           (if i + 1 < length (Snippets transcript)
               \<and> Start (Snippets transcript ! (i + 1))
                   < Start (Snippets transcript ! i) + Duration (Snippets transcript ! i)
            then Start (Snippets transcript ! (i + 1))
            else Start (Snippets transcript ! i) + Duration (Snippets transcript ! i))
       \<and> (i + 1 < length (Snippets transcript)
            \<longrightarrow> \<not> snippet_end (Snippets transcript) i > Start (Snippets transcript ! (i + 1)))"
proof -
  have idx: "(int i < int (length (Snippets transcript)) - 1) = (i + 1 < length (Snippets transcript))"
    by linarith
  have e: "snippet_end (Snippets transcript) i =
           (if i + 1 < length (Snippets transcript)
               \<and> Start (Snippets transcript ! (i + 1))
                   < Start (Snippets transcript ! i) + Duration (Snippets transcript ! i)
            then Start (Snippets transcript ! (i + 1))
            else Start (Snippets transcript ! i) + Duration (Snippets transcript ! i))"
    unfolding snippet_end_def Let_def idx by simp
  have t: "timeText formatTimestamp (Snippets transcript) i =
           (case secondsToTimestamp (Start (Snippets transcript ! i)) of
              (h1, m1, s1, ms1) \<Rightarrow>
                (case secondsToTimestamp (snippet_end (Snippets transcript) i) of
                   (h2, m2, s2, ms2) \<Rightarrow>
                     formatTimestamp h1 m1 s1 ms1 @ '' --> '' @ formatTimestamp h2 m2 s2 ms2))"
    by (simp add: timeText_def split: prod.splits)
  have c: "i + 1 < length (Snippets transcript)
            \<longrightarrow> \<not> snippet_end (Snippets transcript) i > Start (Snippets transcript ! (i + 1))"
    by (simp add: e)
  from formatTranscript_map e t c show ?thesis by blast
qed

lemma example_lines:
  "timeText SRT_formatTimestamp (Snippets example_transcript) 0 = ''00:00:00,000 --> 00:00:05,000''"
  "timeText SRT_formatTimestamp (Snippets example_transcript) (Suc 0) = ''00:00:05,000 --> 00:00:03,000''"
  "timeText SRT_formatTimestamp (Snippets example_transcript) 2 = ''00:00:03,000 --> 00:00:04,000''"
  by (simp_all add: timeText_def snippet_end_def example_transcript_def Let_def
      secondsToTimestamp_def go_int_def SRT_formatTimestamp_def sprintf_d_def zero_pad_def
      string_of_nat.simps numeral_2_eq_2 numeral_3_eq_3)

theorem formatTranscript_end_clamped_witness:
  "snippet_end (Snippets example_transcript) 0 = 5
   \<and> Start (Snippets example_transcript ! 2) = 3
   \<and> snippet_end (Snippets example_transcript) 1 = 3
   \<and> snippet_end (Snippets example_transcript) 2 = 4
   \<and> SRT_FormatTranscript example_transcript =
        ''1'' @ [CHR 10] @ ''00:00:00,000 --> 00:00:05,000'' @ [CHR 10] @ ''Hello'' @ [CHR 10, CHR 10]
        @ ''2'' @ [CHR 10] @ ''00:00:05,000 --> 00:00:03,000'' @ [CHR 10] @ ''World'' @ [CHR 10, CHR 10]
        @ ''3'' @ [CHR 10] @ ''00:00:03,000 --> 00:00:04,000'' @ [CHR 10] @ ''Again'' @ [CHR 10]"
proof -
  have len: "length (Snippets example_transcript) = 3"
    by (simp add: example_transcript_def)
  have up: "[0..<3] = [0, 1, 2]"
    by (simp add: upt_rec)
  have a: "0 < length (Snippets example_transcript)" "1 < length (Snippets example_transcript)"
    "2 < length (Snippets example_transcript)"
    by (simp_all add: len)
  note f0 = formatTranscript_end_clamped [OF a(1), of SRT_formatTimestamp SRT_formatHeader SRT_formatHelper]
  note f1 = formatTranscript_end_clamped [OF a(2), of SRT_formatTimestamp SRT_formatHeader SRT_formatHelper]
  note f2 = formatTranscript_end_clamped [OF a(3), of SRT_formatTimestamp SRT_formatHeader SRT_formatHelper]
  have e0: "snippet_end (Snippets example_transcript) 0 = 5"
    using f0 [THEN conjunct2, THEN conjunct2, THEN conjunct1] by (simp add: example_transcript_def)
  have e1: "snippet_end (Snippets example_transcript) 1 = 3"
    using f1 [THEN conjunct2, THEN conjunct2, THEN conjunct1] by (simp add: example_transcript_def)
  have e2: "snippet_end (Snippets example_transcript) 2 = 4"
    using f2 [THEN conjunct2, THEN conjunct2, THEN conjunct1] by (simp add: example_transcript_def)
  have s2: "Start (Snippets example_transcript ! 2) = 3"
    by (simp add: example_transcript_def)
  have texts: "Text (Snippets example_transcript ! 0) = ''Hello''"
    "Text (Snippets example_transcript ! Suc 0) = ''World''"
    "Text (Snippets example_transcript ! 2) = ''Again''"
    by (simp_all add: example_transcript_def)
  have out: "SRT_FormatTranscript example_transcript =
        ''1'' @ [CHR 10] @ ''00:00:00,000 --> 00:00:05,000'' @ [CHR 10] @ ''Hello'' @ [CHR 10, CHR 10]
        @ ''2'' @ [CHR 10] @ ''00:00:05,000 --> 00:00:03,000'' @ [CHR 10] @ ''World'' @ [CHR 10, CHR 10]
        @ ''3'' @ [CHR 10] @ ''00:00:03,000 --> 00:00:04,000'' @ [CHR 10] @ ''Again'' @ [CHR 10]"
    unfolding SRT_FormatTranscript_def f0 [THEN conjunct1] len up
    by (simp add: texts example_lines SRT_formatHeader_def SRT_formatHelper_def
        sprintf_d_def zero_pad_def string_of_nat.simps)
  from e0 e1 e2 s2 out show ?thesis by simp
qed

lemma go_int_floor: "0 \<le> x \<Longrightarrow> go_int x = \<lfloor>x\<rfloor>"
  by (simp add: go_int_def)

lemma floor_remainder:
  fixes x k :: real
  assumes "0 < k"
  shows "0 \<le> x - real_of_int \<lfloor>x / k\<rfloor> * k" and "x - real_of_int \<lfloor>x / k\<rfloor> * k < k"
proof -
  have "real_of_int \<lfloor>x / k\<rfloor> \<le> x / k" by (rule of_int_floor_le)
  then have "real_of_int \<lfloor>x / k\<rfloor> * k \<le> x"
    using assms by (simp only: pos_le_divide_eq)
  then show "0 \<le> x - real_of_int \<lfloor>x / k\<rfloor> * k" by simp
  have "x / k < real_of_int \<lfloor>x / k\<rfloor> + 1" by linarith
  then have "x < (real_of_int \<lfloor>x / k\<rfloor> + 1) * k"
    using assms by (simp only: pos_divide_less_eq)
  then show "x - real_of_int \<lfloor>x / k\<rfloor> * k < k" by (simp add: algebra_simps)
qed




text \<open>With exact arithmetic every unit stays in its range, so no carry is missed.\<close>

lemma secondsToTimestamp_ranges:
  assumes "0 \<le> s"
  shows "case secondsToTimestamp s of (hours, mins, secs, ms) \<Rightarrow>
           0 \<le> hours \<and> 0 \<le> mins \<and> mins < 60 \<and> 0 \<le> secs \<and> secs < 60 \<and> 0 \<le> ms \<and> ms < 1000"
proof -
  define hours where "hours = \<lfloor>s / 3600\<rfloor>"
  define r1 where "r1 = s - real_of_int hours * 3600"
  define mins where "mins = \<lfloor>r1 / 60\<rfloor>"
  define r2 where "r2 = r1 - real_of_int mins * 60"
  define secs where "secs = \<lfloor>r2\<rfloor>"
  define ms where "ms = \<lfloor>(r2 - real_of_int secs) * 1000\<rfloor>"
  have h0: "0 \<le> hours" using assms by (simp add: hours_def)
  have h: "go_int (s / 3600) = hours"
    using assms by (simp add: go_int_floor hours_def)
  have r1: "0 \<le> r1" "r1 < 3600"
    unfolding r1_def hours_def by (rule floor_remainder, simp)+
  then have m: "0 \<le> mins" "mins < 60"
    unfolding mins_def by (simp_all add: floor_less_iff)
  have gm: "go_int (r1 / 60) = mins"
    using r1 by (simp add: go_int_floor mins_def)
  have r2: "0 \<le> r2" "r2 < 60"
    unfolding r2_def mins_def by (rule floor_remainder, simp)+
  then have sc: "0 \<le> secs" "secs < 60"
    unfolding secs_def by (simp_all add: floor_less_iff)
  have gs: "go_int r2 = secs"
    using r2 by (simp add: go_int_floor secs_def)
  have "real_of_int secs \<le> r2" "r2 < real_of_int secs + 1"
    unfolding secs_def by linarith+
  then have fr: "0 \<le> (r2 - real_of_int secs) * 1000" "(r2 - real_of_int secs) * 1000 < 1000"
    by simp_all
  then have msr: "0 \<le> ms" "ms < 1000"
    unfolding ms_def by (simp_all add: floor_less_iff)
  have gms: "go_int ((r2 - real_of_int secs) * 1000) = ms"
    unfolding ms_def using fr(1) by (rule go_int_floor)
  have eq: "secondsToTimestamp s = (hours, mins, secs, ms)"
    unfolding secondsToTimestamp_def Let_def
    using h gm gs gms
    by (simp add: r1_def[symmetric] r2_def[symmetric])
  show ?thesis using eq h0 m sc msr by simp
qed

section \<open>The playability classifier: properties\<close>

lemma run_texts_acc: "run_texts runs acc = acc @ run_texts runs []"
proof (induction runs arbitrary: acc)
  case Nil
  then show ?case by simp
next
  case (Cons r rs)
  show ?case
    using Cons.IH [of acc] Cons.IH [of "acc @ [x]" for x] Cons.IH [of "[x]" for x]
    by (simp split: option.splits)
qed

text \<open>The sub-reasons are the texts of the runs that are objects with a string text.\<close>

lemma run_texts_map_filter:
  "run_texts runs [] =
     List.map_filter
       (\<lambda>run. case as_obj (Some run) of None \<Rightarrow> None | Some runMap \<Rightarrow> as_str (map_of runMap ''text''))
       runs"
proof (induction runs)
  case Nil
  then show ?case by (simp add: List.map_filter_simps)
next
  case (Cons r rs)
  show ?case
    using Cons.IH run_texts_acc [of rs "[x]" for x]
    by (simp add: List.map_filter_simps split: option.splits)
qed

text \<open>
  C6. The classifier: no \<open>playabilityStatus\<close> object, or status \<open>OK\<close>, is playable;
  \<open>LOGIN_REQUIRED\<close> is blocked for the bot-detection reason, age-restricted for the
  age reason and unplayable for any other reason; \<open>ERROR\<close> with the unavailable
  reason is invalid-video-id when the id starts with \<open>http://\<close> or \<open>https://\<close> and
  video-unavailable otherwise; every other status that is not \<open>OK\<close> is unplayable
  with the reason and the sub-reasons. The sub-reasons are the texts of the runs of
  the error screen, and the empty list when a level of that structure is missing
  or has another type.
\<close>

theorem assertPlayability_classes:
  fixes d :: "(string \<times> json) list"
  defines "psd \<equiv> as_obj (map_of d ''playabilityStatus'')"
  defines "status \<equiv> as_str (map_of (the psd) ''status'')"
  defines "reason \<equiv> (case as_str (map_of (the psd) ''reason'') of Some r \<Rightarrow> r | None \<Rightarrow> [])"
  shows "(psd = None \<longrightarrow> assertPlayability d videoID = None)
       \<and> (psd \<noteq> None \<and> status = Some ''OK'' \<longrightarrow> assertPlayability d videoID = None)
       \<and> (psd \<noteq> None \<and> status = Some ''LOGIN_REQUIRED''
            \<and> reason = ''Sign in to confirm you'' @ [CHR 39] @ ''re not a bot''
          \<longrightarrow> assertPlayability d videoID = Some (RequestBlocked videoID None))
       \<and> (psd \<noteq> None \<and> status = Some ''LOGIN_REQUIRED''
            \<and> reason = ''This video may be inappropriate for some users.''
          \<longrightarrow> assertPlayability d videoID = Some (AgeRestricted videoID))
       \<and> (psd \<noteq> None \<and> status = Some ''LOGIN_REQUIRED''
            \<and> reason \<noteq> ''Sign in to confirm you'' @ [CHR 39] @ ''re not a bot''
            \<and> reason \<noteq> ''This video may be inappropriate for some users.''
          \<longrightarrow> assertPlayability d videoID
                = Some (VideoUnplayable videoID reason (sub_reasons (the psd))))
       \<and> (psd \<noteq> None \<and> status = Some ''ERROR'' \<and> reason = ''This video is unavailable''
          \<longrightarrow> assertPlayability d videoID
                = (if HasPrefix videoID ''http://'' \<or> HasPrefix videoID ''https://''
                   then Some (InvalidVideoId videoID)
                   else Some (VideoUnavailable videoID)))
       \<and> (\<forall>s. psd \<noteq> None \<and> status = Some s \<and> s \<noteq> ''OK'' \<and> s \<noteq> ''LOGIN_REQUIRED''
               \<and> \<not> (s = ''ERROR'' \<and> reason = ''This video is unavailable'')
          \<longrightarrow> assertPlayability d videoID
                = Some (VideoUnplayable videoID reason (sub_reasons (the psd))))
       \<and> (psd \<noteq> None \<longrightarrow>
            sub_reasons (the psd) =
              (case as_obj (map_of (the psd) ''errorScreen'') of
                 None \<Rightarrow> []
               | Some errorScreen \<Rightarrow>
                   (case as_obj (map_of errorScreen ''playerErrorMessageRenderer'') of
                      None \<Rightarrow> []
                    | Some playerError \<Rightarrow>
                        (case as_obj (map_of playerError ''subreason'') of
                           None \<Rightarrow> []
                         | Some subreason \<Rightarrow>
                             (case as_arr (map_of subreason ''runs'') of
                                None \<Rightarrow> []
                              | Some runs \<Rightarrow>
                                  List.map_filter
                                    (\<lambda>run. case as_obj (Some run) of
                                              None \<Rightarrow> None
                                            | Some runMap \<Rightarrow> as_str (map_of runMap ''text''))
                                    runs)))))"
proof -
  have cs: "PlayabilityStatusOK = ''OK''" "PlayabilityStatusLoginRequired = ''LOGIN_REQUIRED''"
    "PlayabilityStatusError = ''ERROR''"
    "PlayabilityFailedReasonBotDetected = ''Sign in to confirm you'' @ [CHR 39] @ ''re not a bot''"
    "PlayabilityFailedReasonAgeRestricted = ''This video may be inappropriate for some users.''"
    "PlayabilityFailedReasonVideoUnavailable = ''This video is unavailable''"
    by (simp_all add: PlayabilityStatusOK_def PlayabilityStatusLoginRequired_def
        PlayabilityStatusError_def PlayabilityFailedReasonBotDetected_def
        PlayabilityFailedReasonAgeRestricted_def PlayabilityFailedReasonVideoUnavailable_def)
  have c1: "psd = None \<longrightarrow> assertPlayability d videoID = None"
    by (simp add: assertPlayability_def psd_def)
  have c2: "psd \<noteq> None \<and> status = Some ''OK'' \<longrightarrow> assertPlayability d videoID = None"
    by (auto simp: assertPlayability_def psd_def status_def cs)
  have c3: "psd \<noteq> None \<and> status = Some ''LOGIN_REQUIRED''
            \<and> reason = ''Sign in to confirm you'' @ [CHR 39] @ ''re not a bot''
          \<longrightarrow> assertPlayability d videoID = Some (RequestBlocked videoID None)"
    by (auto simp: assertPlayability_def psd_def status_def reason_def cs Let_def)
  have c4: "psd \<noteq> None \<and> status = Some ''LOGIN_REQUIRED''
            \<and> reason = ''This video may be inappropriate for some users.''
          \<longrightarrow> assertPlayability d videoID = Some (AgeRestricted videoID)"
    by (auto simp: assertPlayability_def psd_def status_def reason_def cs Let_def)
  have c5: "psd \<noteq> None \<and> status = Some ''LOGIN_REQUIRED''
            \<and> reason \<noteq> ''Sign in to confirm you'' @ [CHR 39] @ ''re not a bot''
            \<and> reason \<noteq> ''This video may be inappropriate for some users.''
          \<longrightarrow> assertPlayability d videoID
                = Some (VideoUnplayable videoID reason (sub_reasons (the psd)))"
    by (auto simp: assertPlayability_def psd_def status_def reason_def cs Let_def)
  have c6: "psd \<noteq> None \<and> status = Some ''ERROR'' \<and> reason = ''This video is unavailable''
          \<longrightarrow> assertPlayability d videoID
                = (if HasPrefix videoID ''http://'' \<or> HasPrefix videoID ''https://''
                   then Some (InvalidVideoId videoID)
                   else Some (VideoUnavailable videoID))"
    by (auto simp: assertPlayability_def psd_def status_def reason_def cs Let_def)
  have c7: "\<forall>s. psd \<noteq> None \<and> status = Some s \<and> s \<noteq> ''OK'' \<and> s \<noteq> ''LOGIN_REQUIRED''
               \<and> \<not> (s = ''ERROR'' \<and> reason = ''This video is unavailable'')
          \<longrightarrow> assertPlayability d videoID
                = Some (VideoUnplayable videoID reason (sub_reasons (the psd)))"
    by (auto simp: assertPlayability_def psd_def status_def reason_def cs Let_def)
  have c8: "psd \<noteq> None \<longrightarrow>
            sub_reasons (the psd) =
              (case as_obj (map_of (the psd) ''errorScreen'') of
                 None \<Rightarrow> []
               | Some errorScreen \<Rightarrow>
                   (case as_obj (map_of errorScreen ''playerErrorMessageRenderer'') of
                      None \<Rightarrow> []
                    | Some playerError \<Rightarrow>
                        (case as_obj (map_of playerError ''subreason'') of
                           None \<Rightarrow> []
                         | Some subreason \<Rightarrow>
                             (case as_arr (map_of subreason ''runs'') of
                                None \<Rightarrow> []
                              | Some runs \<Rightarrow>
                                  List.map_filter
                                    (\<lambda>run. case as_obj (Some run) of
                                              None \<Rightarrow> None
                                            | Some runMap \<Rightarrow> as_str (map_of runMap ''text''))
                                    runs))))"
    by (simp add: sub_reasons_def run_texts_map_filter split: option.splits)
  from c1 c2 c3 c4 c5 c6 c7 c8 show ?thesis by blast
qed

theorem assertPlayability_classes_witness:
  "assertPlayability [] ''vid'' = None
   \<and> assertPlayability example_player_bot ''vid'' = Some (RequestBlocked ''vid'' None)
   \<and> assertPlayability example_player_age ''vid'' = Some (AgeRestricted ''vid'')
   \<and> assertPlayability example_player_private ''vid''
       = Some (VideoUnplayable ''vid'' ''This video is private'' [''Sign in'', ''to watch''])
   \<and> assertPlayability example_player_gone ''https://youtu.be/vid''
       = Some (InvalidVideoId ''https://youtu.be/vid'')
   \<and> assertPlayability example_player_gone ''vid'' = Some (VideoUnavailable ''vid'')
   \<and> assertPlayability example_player_live ''vid'' = Some (VideoUnplayable ''vid'' ''Offline'' [])"
proof -
  have w1: "assertPlayability [] ''vid'' = None"
    using assertPlayability_classes [of "[]" "''vid''"]
    by (simp add: as_obj_def)
  have w2: "assertPlayability example_player_bot ''vid'' = Some (RequestBlocked ''vid'' None)"
    using assertPlayability_classes [of example_player_bot "''vid''"]
    by (simp add: example_player_bot_def as_obj_def as_str_def
        PlayabilityFailedReasonBotDetected_def)
  have w3: "assertPlayability example_player_age ''vid'' = Some (AgeRestricted ''vid'')"
    using assertPlayability_classes [of example_player_age "''vid''"]
    by (simp add: example_player_age_def as_obj_def as_str_def)
  have w4: "assertPlayability example_player_private ''vid''
       = Some (VideoUnplayable ''vid'' ''This video is private'' [''Sign in'', ''to watch''])"
    using assertPlayability_classes [of example_player_private "''vid''"]
    by (simp add: example_player_private_def as_obj_def as_str_def as_arr_def
        List.map_filter_simps)
  have w5: "assertPlayability example_player_gone ''https://youtu.be/vid''
       = Some (InvalidVideoId ''https://youtu.be/vid'')"
    using assertPlayability_classes [of example_player_gone "''https://youtu.be/vid''"]
    by (simp add: example_player_gone_def as_obj_def as_str_def HasPrefix_def)
  have w6: "assertPlayability example_player_gone ''vid'' = Some (VideoUnavailable ''vid'')"
    using assertPlayability_classes [of example_player_gone "''vid''"]
    by (simp add: example_player_gone_def as_obj_def as_str_def HasPrefix_def)
  have w7: "assertPlayability example_player_live ''vid'' = Some (VideoUnplayable ''vid'' ''Offline'' [])"
    using assertPlayability_classes [of example_player_live "''vid''"]
    by (simp add: example_player_live_def as_obj_def as_str_def)
  from w1 w2 w3 w4 w5 w6 w7 show ?thesis by simp
qed

section \<open>Building the catalog: properties\<close>

text \<open>
  With no string title, the loop panics as soon as the list holds a track that is an
  object with a string \<open>languageCode\<close> and a string \<open>baseUrl\<close>.
\<close>

lemma caption_loop_panics:
  assumes notitle: "as_str (map_of videoDetailsJSON ''title'') = None"
    and "track \<in> set tracks"
    and "as_obj (Some track) = Some m"
    and "as_str (map_of m ''languageCode'') = Some lc"
    and "as_str (map_of m ''baseUrl'') = Some bu"
  shows "caption_loop client videoID videoDetailsJSON thumbnail tls tracks dicts
           = Panic ''interface conversion: interface {} is not string''"
  using assms(2-)
proof (induction tracks arbitrary: dicts)
  case Nil
  then show ?case by simp
next
  case (Cons c cs)
  show ?case
  proof (cases "c = track")
    case True
    with Cons.prems notitle show ?thesis
      by (simp add: Let_def)
  next
    case False
    with Cons.prems have "track \<in> set cs" by simp
    from Cons.IH [OF this Cons.prems(2) Cons.prems(3) Cons.prems(4)] notitle
    show ?thesis
      by (simp add: Let_def split: option.splits)
  qed
qed

text \<open>With a string title the loop returns: the assertion is the only panic.\<close>

lemma caption_loop_returns:
  assumes "as_str (map_of videoDetailsJSON ''title'') = Some title"
  shows "\<exists>dicts'. caption_loop client videoID videoDetailsJSON thumbnail tls tracks dicts
           = Returned dicts'"
  using assms
  by (induction tracks arbitrary: dicts) (auto simp: Let_def split: option.splits)

text \<open>
  C10. A player response that is playable, has a \<open>videoDetails\<close> object without a
  string \<open>title\<close>, and has a caption track with a string \<open>languageCode\<close> and a string
  \<open>baseUrl\<close>: the extraction step accepts it (its unparsable-data check looks only at
  the \<open>videoDetails\<close> object itself), and \<open>BuildTranscriptList\<close> panics instead of
  returning an error.
\<close>

theorem BuildTranscriptList_panics_without_title:
  assumes playable: "assertPlayability d videoID = None"
    and details: "as_obj (map_of d ''videoDetails'') = Some videoDetailsJSON"
    and notitle: "as_str (map_of videoDetailsJSON ''title'') = None"
    and captions: "as_obj (map_of d ''captions'') = Some captions"
    and renderer: "as_obj (map_of captions ''playerCaptionsTracklistRenderer'') = Some captionsJSON"
    and tracks: "as_arr (map_of captionsJSON ''captionTracks'') = Some tracks"
    and track: "track \<in> set tracks" "as_obj (Some track) = Some m"
      "as_str (map_of m ''languageCode'') = Some lc" "as_str (map_of m ''baseUrl'') = Some bu"
  shows "extractVideoDetailsAndCaptionsJSON d videoID = Inr (videoDetailsJSON, captionsJSON)
       \<and> BuildTranscriptList thumbnail client videoID videoDetailsJSON captionsJSON
           = Panic ''interface conversion: interface {} is not string''"
proof -
  from tracks have key: "map_of captionsJSON ''captionTracks'' \<noteq> None"
    by (auto simp: as_arr_def split: option.splits)
  have a: "extractVideoDetailsAndCaptionsJSON d videoID = Inr (videoDetailsJSON, captionsJSON)"
    using playable details captions renderer key
    by (auto simp: extractVideoDetailsAndCaptionsJSON_def)
  have b: "BuildTranscriptList thumbnail client videoID videoDetailsJSON captionsJSON
           = Panic ''interface conversion: interface {} is not string''"
    using tracks caption_loop_panics [OF notitle track]
    by (simp add: BuildTranscriptList_def Let_def)
  from a b show ?thesis by simp
qed

theorem BuildTranscriptList_panics_without_title_witness:
  "extractVideoDetailsAndCaptionsJSON example_player_untitled ''vid''
     = Inr ([(''videoId'', JStr ''vid'')], example_captions)
   \<and> BuildTranscriptList example_thumbnail 0 ''vid'' [(''videoId'', JStr ''vid'')] example_captions
     = Panic ''interface conversion: interface {} is not string''"
proof -
  have playable: "assertPlayability example_player_untitled ''vid'' = None"
    by (simp add: assertPlayability_def example_player_untitled_def as_obj_def as_str_def
        PlayabilityStatusOK_def)
  have details: "as_obj (map_of example_player_untitled ''videoDetails'') = Some [(''videoId'', JStr ''vid'')]"
    by (simp add: example_player_untitled_def as_obj_def)
  have notitle: "as_str (map_of [(''videoId'', JStr ''vid'')] ''title'') = None"
    by (simp add: as_str_def)
  have captions: "as_obj (map_of example_player_untitled ''captions'')
      = Some [(''playerCaptionsTracklistRenderer'', JObj example_captions)]"
    by (simp add: example_player_untitled_def as_obj_def)
  have renderer: "as_obj (map_of [(''playerCaptionsTracklistRenderer'', JObj example_captions)]
      ''playerCaptionsTracklistRenderer'') = Some example_captions"
    by (simp add: as_obj_def)
  have tracks: "as_arr (map_of example_captions ''captionTracks'') = Some [example_track_en]"
    by (simp add: example_captions_def as_arr_def)
  have track: "example_track_en \<in> set [example_track_en]"
    by simp
  have m: "as_obj (Some example_track_en) =
     Some [(''baseUrl'', JStr ''https://www.youtube.com/api/timedtext?v=vid&lang=en&fmt=srv3''),
           (''languageCode'', JStr ''en''),
           (''name'', JObj [(''runs'', JArr [JObj [(''text'', JStr ''English'')]])]),
           (''isTranslatable'', JBool True)]"
    by (simp add: example_track_en_def as_obj_def)
  have lc: "as_str (map_of [(''baseUrl'', JStr ''https://www.youtube.com/api/timedtext?v=vid&lang=en&fmt=srv3''),
           (''languageCode'', JStr ''en''),
           (''name'', JObj [(''runs'', JArr [JObj [(''text'', JStr ''English'')]])]),
           (''isTranslatable'', JBool True)] ''languageCode'') = Some ''en''"
    by (simp add: as_str_def)
  have bu: "as_str (map_of [(''baseUrl'', JStr ''https://www.youtube.com/api/timedtext?v=vid&lang=en&fmt=srv3''),
           (''languageCode'', JStr ''en''),
           (''name'', JObj [(''runs'', JArr [JObj [(''text'', JStr ''English'')]])]),
           (''isTranslatable'', JBool True)] ''baseUrl'')
        = Some ''https://www.youtube.com/api/timedtext?v=vid&lang=en&fmt=srv3''"
    by (simp add: as_str_def)
  show ?thesis
    by (rule BuildTranscriptList_panics_without_title
        [OF playable details notitle captions renderer tracks track m lc bu])
qed

section \<open>The consent interstitial: properties\<close>

lemma fetchHTML_ok:
  assumes "server e (length (calls n)) = Reply code status (Body b)" "code \<noteq> 429" "code < 400"
  shows "fetchHTML e videoID n
           = (Inr (UnescapeString e b), n\<lparr>calls := calls n @ [GET (WatchURLTemplate videoID)]\<rparr>)"
  using assms by (simp add: fetchHTML_def raiseHTTPErrors_def Let_def)

lemma fetchHTML_calls:
  "snd (fetchHTML e videoID n) = n\<lparr>calls := calls n @ [GET (WatchURLTemplate videoID)]\<rparr>"
  by (simp add: fetchHTML_def Let_def split: reply.splits option.splits body.splits)

lemma fetchHTML_result:
  "fst (fetchHTML e videoID n)
     = (case server e (length (calls n)) of
          NoReply msg \<Rightarrow> Inl (YouTubeRequestFailed videoID (TransportError msg))
        | Reply code status b \<Rightarrow>
            (case raiseHTTPErrors code status videoID of
               Some err \<Rightarrow> Inl err
             | None \<Rightarrow>
                 (case b of
                    Broken msg \<Rightarrow> Inl (YouTubeRequestFailed videoID (ReadError msg))
                  | Body bodyBytes \<Rightarrow> Inr (UnescapeString e bodyBytes))))"
  by (simp add: fetchHTML_def Let_def split: reply.splits option.splits body.splits)

text \<open>An error of the page fetch ends the acquisition: no later step runs.\<close>

lemma fetchVideoDetailsAndCaptionsJSON_page_error:
  assumes "fetchVideoHTML e videoID n = (Inl err, n')"
  shows "fetchVideoDetailsAndCaptionsJSON e tlf videoID tryNumber n = (Inl err, n')"
  using assms by (simp add: fetchVideoDetailsAndCaptionsJSON.simps)

text \<open>
  C7, as the code has it. The first page comes back with the consent marker.
  \<^item> When the hidden form value is not found the fetch fails with the consent-cookie
    failure at once: no cookie is set and the page is not fetched again.
  \<^item> When the value \<open>v\<close> is found, the cookie \<open>CONSENT=YES+v\<close> for \<open>.youtube.com\<close> is put
    in the jar and the page is fetched exactly once more; the result is that of the
    second fetch, unless its body still has the marker.
  \<^item> When the second body still has the marker the fetch, and with it the whole
    acquisition, fails with the consent-cookie failure after these two page requests,
    with no request to the player endpoint.
\<close>

theorem fetchVideoHTML_consent:
  assumes first: "server e (length (calls n)) = Reply code status (Body b)"
      "code \<noteq> 429" "code < 400"
    and marker: "Contains (UnescapeString e b) consent_marker"
  shows "(find_first match_consent_value (UnescapeString e b) = None \<longrightarrow>
            fetchVideoHTML e videoID n
              = (Inl (FailedToCreateConsentCookie videoID),
                 n\<lparr>calls := calls n @ [GET (WatchURLTemplate videoID)]\<rparr>))
       \<and> (\<forall>v. find_first match_consent_value (UnescapeString e b) = Some v \<longrightarrow>
            snd (fetchVideoHTML e videoID n)
              = n\<lparr>calls := calls n @ [GET (WatchURLTemplate videoID), GET (WatchURLTemplate videoID)],
                   Jar := Jar n @ [(''https://youtube.com'',
                                    \<lparr>c_Name = ''CONSENT'', c_Value = ''YES+'' @ v,
                                      c_Domain = ''.youtube.com''\<rparr>)]\<rparr>
            \<and> fst (fetchVideoHTML e videoID n)
              = (case server e (length (calls n) + 1) of
                   NoReply msg \<Rightarrow> Inl (YouTubeRequestFailed videoID (TransportError msg))
                 | Reply code2 status2 b2 \<Rightarrow>
                     (case raiseHTTPErrors code2 status2 videoID of
                        Some err \<Rightarrow> Inl err
                      | None \<Rightarrow>
                          (case b2 of
                             Broken msg \<Rightarrow> Inl (YouTubeRequestFailed videoID (ReadError msg))
                           | Body html2 \<Rightarrow>
                               if Contains (UnescapeString e html2) consent_marker
                               then Inl (FailedToCreateConsentCookie videoID)
                               else Inr (UnescapeString e html2)))))
       \<and> (\<forall>v code2 status2 b2.
            find_first match_consent_value (UnescapeString e b) = Some v
            \<and> server e (length (calls n) + 1) = Reply code2 status2 (Body b2)
            \<and> code2 \<noteq> 429 \<and> code2 < 400
            \<and> Contains (UnescapeString e b2) consent_marker \<longrightarrow>
            fetchVideoDetailsAndCaptionsJSON e tlf videoID tryNumber n
              = (Inl (FailedToCreateConsentCookie videoID),
                 n\<lparr>calls := calls n @ [GET (WatchURLTemplate videoID), GET (WatchURLTemplate videoID)],
                   Jar := Jar n @ [(''https://youtube.com'',
                                    \<lparr>c_Name = ''CONSENT'', c_Value = ''YES+'' @ v,
                                      c_Domain = ''.youtube.com''\<rparr>)]\<rparr>))"
proof -
  let ?u = "WatchURLTemplate videoID"
  let ?html = "UnescapeString e b"
  let ?n1 = "n\<lparr>calls := calls n @ [GET ?u]\<rparr>"
  have f1: "fetchHTML e videoID n = (Inr ?html, ?n1)"
    by (rule fetchHTML_ok [OF first])
  have a: "find_first match_consent_value ?html = None \<longrightarrow>
            fetchVideoHTML e videoID n = (Inl (FailedToCreateConsentCookie videoID), ?n1)"
    using marker by (simp add: fetchVideoHTML_def f1 createConsentCookie_def)
  have b: "snd (fetchVideoHTML e videoID n)
              = n\<lparr>calls := calls n @ [GET ?u, GET ?u],
                   Jar := Jar n @ [(''https://youtube.com'',
                                    \<lparr>c_Name = ''CONSENT'', c_Value = ''YES+'' @ v,
                                      c_Domain = ''.youtube.com''\<rparr>)]\<rparr>
            \<and> fst (fetchVideoHTML e videoID n)
              = (case server e (length (calls n) + 1) of
                   NoReply msg \<Rightarrow> Inl (YouTubeRequestFailed videoID (TransportError msg))
                 | Reply code2 status2 b2 \<Rightarrow>
                     (case raiseHTTPErrors code2 status2 videoID of
                        Some err \<Rightarrow> Inl err
                      | None \<Rightarrow>
                          (case b2 of
                             Broken msg \<Rightarrow> Inl (YouTubeRequestFailed videoID (ReadError msg))
                           | Body html2 \<Rightarrow>
                               if Contains (UnescapeString e html2) consent_marker
                               then Inl (FailedToCreateConsentCookie videoID)
                               else Inr (UnescapeString e html2))))"
    if v: "find_first match_consent_value ?html = Some v" for v
  proof -
    let ?n2 = "n\<lparr>calls := calls n @ [GET ?u], Jar := Jar n @ [(''https://youtube.com'',
                                    \<lparr>c_Name = ''CONSENT'', c_Value = ''YES+'' @ v,
                                      c_Domain = ''.youtube.com''\<rparr>)]\<rparr>"
    have cc: "createConsentCookie ?html videoID ?n1 = (None, ?n2)"
      using v by (simp add: createConsentCookie_def)
    obtain r2 n3 where f2: "fetchHTML e videoID ?n2 = (r2, n3)"
      by (cases "fetchHTML e videoID ?n2")
    have n3: "n3 = ?n2\<lparr>calls := calls ?n2 @ [GET ?u]\<rparr>"
      using fetchHTML_calls [of e videoID ?n2] f2 by simp
    have r2: "r2 = (case server e (length (calls n) + 1) of
                   NoReply msg \<Rightarrow> Inl (YouTubeRequestFailed videoID (TransportError msg))
                 | Reply code2 status2 b2 \<Rightarrow>
                     (case raiseHTTPErrors code2 status2 videoID of
                        Some err \<Rightarrow> Inl err
                      | None \<Rightarrow>
                          (case b2 of
                             Broken msg \<Rightarrow> Inl (YouTubeRequestFailed videoID (ReadError msg))
                           | Body html2 \<Rightarrow> Inr (UnescapeString e html2))))"
      using fetchHTML_result [of e videoID ?n2] f2 by simp
    have whole: "fetchVideoHTML e videoID n
        = (case r2 of
             Inl err \<Rightarrow> (Inl err, n3)
           | Inr html2 \<Rightarrow>
               if Contains html2 consent_marker
               then (Inl (FailedToCreateConsentCookie videoID), n3)
               else (Inr html2, n3))"
      using marker f2 cc by (simp add: fetchVideoHTML_def f1 split: sum.splits)
    show ?thesis
      unfolding whole n3 r2
      by (simp split: reply.splits option.splits body.splits sum.splits)
  qed
  have c: "fetchVideoDetailsAndCaptionsJSON e tlf videoID tryNumber n
              = (Inl (FailedToCreateConsentCookie videoID),
                 n\<lparr>calls := calls n @ [GET ?u, GET ?u],
                   Jar := Jar n @ [(''https://youtube.com'',
                                    \<lparr>c_Name = ''CONSENT'', c_Value = ''YES+'' @ v,
                                      c_Domain = ''.youtube.com''\<rparr>)]\<rparr>)"
    if v: "find_first match_consent_value ?html = Some v"
      and second: "server e (length (calls n) + 1) = Reply code2 status2 (Body b2)"
        "code2 \<noteq> 429" "code2 < 400"
      and still: "Contains (UnescapeString e b2) consent_marker"
    for v code2 status2 b2
  proof -
    from b [OF v] second still
    have "fetchVideoHTML e videoID n
              = (Inl (FailedToCreateConsentCookie videoID),
                 n\<lparr>calls := calls n @ [GET ?u, GET ?u],
                   Jar := Jar n @ [(''https://youtube.com'',
                                    \<lparr>c_Name = ''CONSENT'', c_Value = ''YES+'' @ v,
                                      c_Domain = ''.youtube.com''\<rparr>)]\<rparr>)"
      by (simp add: prod_eq_iff raiseHTTPErrors_def)
    then show ?thesis
      by (rule fetchVideoDetailsAndCaptionsJSON_page_error)
  qed
  from a b c show ?thesis by blast
qed


lemma example_pages:
  "Contains example_consent_page consent_marker"
  "Contains example_consent_page_no_value consent_marker"
  "find_first match_consent_value example_consent_page = Some ''cb.20240101''"
  "find_first match_consent_value example_consent_page_no_value = None"
  by (simp_all add: example_consent_page_def example_consent_page_no_value_def consent_marker_def
      consent_value_literal_def DQ_def HasPrefix_def match_consent_value_def Let_def)

theorem fetchVideoHTML_consent_witness:
  "fetchVideoDetailsAndCaptionsJSON
     (example_env [Reply 200 ''200 OK'' (Body example_consent_page),
                   Reply 200 ''200 OK'' (Body example_consent_page)])
     example_fetcher ''vid'' 0 empty_net
   = (Inl (FailedToCreateConsentCookie ''vid''),
      \<lparr>calls = [GET ''https://www.youtube.com/watch?v=vid'',
                GET ''https://www.youtube.com/watch?v=vid''],
        Jar = [(''https://youtube.com'',
                \<lparr>c_Name = ''CONSENT'', c_Value = ''YES+cb.20240101'', c_Domain = ''.youtube.com''\<rparr>)],
        slept = []\<rparr>)"
proof -
  let ?e = "example_env [Reply 200 ''200 OK'' (Body example_consent_page),
                         Reply 200 ''200 OK'' (Body example_consent_page)]"
  have first: "server ?e (length (calls empty_net)) = Reply 200 ''200 OK'' (Body example_consent_page)"
    by (simp add: example_env_def empty_net_def)
  have c: "(200::int) \<noteq> 429" "(200::int) < 400"
    by simp_all
  have marker: "Contains (UnescapeString ?e example_consent_page) consent_marker"
    by (simp add: example_env_def example_pages)
  have v: "find_first match_consent_value (UnescapeString ?e example_consent_page) = Some ''cb.20240101''"
    by (simp add: example_env_def example_pages)
  have second: "server ?e (length (calls empty_net) + 1) = Reply 200 ''200 OK'' (Body example_consent_page)"
    by (simp add: example_env_def empty_net_def)
  from fetchVideoHTML_consent [OF first c marker, of "''vid''" example_fetcher 0]
  have "\<forall>v code2 status2 b2.
            find_first match_consent_value (UnescapeString ?e example_consent_page) = Some v
            \<and> server ?e (length (calls empty_net) + 1) = Reply code2 status2 (Body b2)
            \<and> code2 \<noteq> 429 \<and> code2 < 400
            \<and> Contains (UnescapeString ?e b2) consent_marker \<longrightarrow>
            fetchVideoDetailsAndCaptionsJSON ?e example_fetcher ''vid'' 0 empty_net
              = (Inl (FailedToCreateConsentCookie ''vid''),
                 empty_net\<lparr>calls := calls empty_net @ [GET (WatchURLTemplate ''vid''), GET (WatchURLTemplate ''vid'')],
                   Jar := Jar empty_net @ [(''https://youtube.com'',
                                    \<lparr>c_Name = ''CONSENT'', c_Value = ''YES+'' @ v,
                                      c_Domain = ''.youtube.com''\<rparr>)]\<rparr>)"
    by blast
  from this [rule_format, of "''cb.20240101''" 200 "''200 OK''" example_consent_page] v second marker
  show ?thesis
    by (simp add: empty_net_def WatchURLTemplate_def)
qed

theorem fetchVideoHTML_consent_counterexample:
  "Contains example_consent_page_no_value consent_marker
   \<and> fetchVideoHTML (example_env [Reply 200 ''200 OK'' (Body example_consent_page_no_value)])
        ''vid'' empty_net
      = (Inl (FailedToCreateConsentCookie ''vid''),
         \<lparr>calls = [GET ''https://www.youtube.com/watch?v=vid''], Jar = [], slept = []\<rparr>)
   \<and> \<not> spec_consent_refetch
          (example_env [Reply 200 ''200 OK'' (Body example_consent_page_no_value)]) ''vid'' empty_net"
proof -
  let ?e = "example_env [Reply 200 ''200 OK'' (Body example_consent_page_no_value)]"
  have r: "fetchVideoHTML ?e ''vid'' empty_net
      = (Inl (FailedToCreateConsentCookie ''vid''),
         \<lparr>calls = [GET ''https://www.youtube.com/watch?v=vid''], Jar = [], slept = []\<rparr>)"
    by (simp add: fetchVideoHTML_def fetchHTML_def example_env_def empty_net_def Let_def
        raiseHTTPErrors_def example_pages createConsentCookie_def WatchURLTemplate_def)
  have "\<not> spec_consent_refetch ?e ''vid'' empty_net"
    unfolding spec_consent_refetch_def r
    by (simp add: example_env_def empty_net_def example_pages)
  with r example_pages(2) show ?thesis by simp
qed

section \<open>Retrying when blocked: properties\<close>

text \<open>
  For every proxy configuration and every attempt number: a 429 answer to the page
  request, and a page with the CAPTCHA marker and no API key, end the acquisition with
  \<open>IpBlocked\<close> after that one request. Nothing is slept and nothing is retried.
\<close>

lemma page_429_not_retried:
  assumes "server e (length (calls n)) = Reply 429 status b"
  shows "fetchVideoDetailsAndCaptionsJSON e tlf videoID tryNumber n
           = (Inl (IpBlocked videoID), n\<lparr>calls := calls n @ [GET (WatchURLTemplate videoID)]\<rparr>)"
  using assms
  by (simp add: fetchVideoDetailsAndCaptionsJSON.simps fetchVideoHTML_def fetchHTML_def Let_def
      raiseHTTPErrors_def)

lemma captcha_not_retried:
  assumes "server e (length (calls n)) = Reply code status (Body b)" "code \<noteq> 429" "code < 400"
    and "\<not> Contains (UnescapeString e b) consent_marker"
    and "find_first match_api_key (UnescapeString e b) = None"
    and "Contains (UnescapeString e b) recaptcha_marker"
  shows "fetchVideoDetailsAndCaptionsJSON e tlf videoID tryNumber n
           = (Inl (IpBlocked videoID), n\<lparr>calls := calls n @ [GET (WatchURLTemplate videoID)]\<rparr>)"
  using assms
  by (simp add: fetchVideoDetailsAndCaptionsJSON.simps fetchVideoHTML_def fetchHTML_def Let_def
      raiseHTTPErrors_def extractInnertubeAPIKey_def)

lemma example_key_pages:
  "find_first match_api_key example_watch_page = Some ''AIza_Sy-1''"
  "Contains example_watch_page consent_marker = False"
  "find_first match_api_key example_captcha_page = None"
  "Contains example_captcha_page consent_marker = False"
  "Contains example_captcha_page recaptcha_marker"
  by (simp_all add: example_watch_page_def example_captcha_page_def api_key_literal_def DQ_def
      consent_marker_def recaptcha_marker_def HasPrefix_def match_api_key_def Let_def
      is_space_def is_key_char_def is_alnum_def is_letter_def is_upper_def is_lower_def
      is_digit_def)

lemma example_bot_blocked:
  "extractVideoDetailsAndCaptionsJSON example_player_bot ''vid'' = Inl (RequestBlocked ''vid'' None)"
  by (simp add: extractVideoDetailsAndCaptionsJSON_def assertPlayability_def example_player_bot_def
      as_obj_def as_str_def PlayabilityStatusOK_def PlayabilityStatusLoginRequired_def Let_def)

lemma example_retries:
  "allowed_retries example_fetcher = 3"
  "proxyConfig example_fetcher = Some example_proxy"
  by (simp_all add: allowed_retries_def example_fetcher_def example_proxy_def)

text \<open>
  C5 at a concrete input. The proxy configuration allows 3 retries. The first page
  request is answered with status 429 (or with a CAPTCHA page): the acquisition
  returns \<open>IpBlocked\<close> after one request, with no sleep and no second attempt.
\<close>

theorem blocked_429_and_captcha_not_retried:
  "allowed_retries example_fetcher = 3
   \<and> fetchVideoDetailsAndCaptionsJSON
        (example_env [Reply 429 ''429 Too Many Requests'' (Body [])]) example_fetcher ''vid'' 0 empty_net
      = (Inl (IpBlocked ''vid''),
         \<lparr>calls = [GET ''https://www.youtube.com/watch?v=vid''], Jar = [], slept = []\<rparr>)
   \<and> fetchVideoDetailsAndCaptionsJSON
        (example_env [Reply 200 ''200 OK'' (Body example_captcha_page)]) example_fetcher ''vid'' 0 empty_net
      = (Inl (IpBlocked ''vid''),
         \<lparr>calls = [GET ''https://www.youtube.com/watch?v=vid''], Jar = [], slept = []\<rparr>)"
proof -
  have a: "fetchVideoDetailsAndCaptionsJSON
        (example_env [Reply 429 ''429 Too Many Requests'' (Body [])]) example_fetcher ''vid'' 0 empty_net
      = (Inl (IpBlocked ''vid''),
         \<lparr>calls = [GET ''https://www.youtube.com/watch?v=vid''], Jar = [], slept = []\<rparr>)"
    by (simp add: fetchVideoDetailsAndCaptionsJSON.simps fetchVideoHTML_def fetchHTML_def
        example_env_def empty_net_def Let_def raiseHTTPErrors_def WatchURLTemplate_def)
  have b: "fetchVideoDetailsAndCaptionsJSON
        (example_env [Reply 200 ''200 OK'' (Body example_captcha_page)]) example_fetcher ''vid'' 0 empty_net
      = (Inl (IpBlocked ''vid''),
         \<lparr>calls = [GET ''https://www.youtube.com/watch?v=vid''], Jar = [], slept = []\<rparr>)"
    by (simp add: fetchVideoDetailsAndCaptionsJSON.simps fetchVideoHTML_def fetchHTML_def
        example_env_def empty_net_def Let_def raiseHTTPErrors_def WatchURLTemplate_def
        example_key_pages extractInnertubeAPIKey_def)
  from a b example_retries(1) show ?thesis by simp
qed

text \<open>The sibling path: a bot-detection block from the player response is retried.\<close>

lemma bot_detection_retried:
  "fetchVideoDetailsAndCaptionsJSON
     (example_env [Reply 200 ''200 OK'' (Body example_watch_page), Reply 200 ''200 OK'' (Body ''bot''),
                   Reply 200 ''200 OK'' (Body example_watch_page), Reply 200 ''200 OK'' (Body ''bot''),
                   Reply 200 ''200 OK'' (Body example_watch_page), Reply 200 ''200 OK'' (Body ''bot''),
                   Reply 200 ''200 OK'' (Body example_watch_page), Reply 200 ''200 OK'' (Body ''bot'')])
     example_fetcher ''vid'' 0 empty_net
   = (Inl (RequestBlocked ''vid'' (Some example_proxy)),
      \<lparr>calls = concat (replicate 3
                 [GET ''https://www.youtube.com/watch?v=vid'',
                  POST ''https://www.youtube.com/youtubei/v1/player?key=AIza_Sy-1'' ''application/json''
                    (JObj [(''context'', JObj [(''client'', JObj [(''clientName'', JStr ''ANDROID''),
                                                                 (''clientVersion'', JStr ''20.10.38'')])]),
                           (''videoId'', JStr ''vid'')])]),
        Jar = [], slept = [1, 2]\<rparr>)"
  by (simp add: fetchVideoDetailsAndCaptionsJSON.simps fetchVideoHTML_def fetchHTML_def
      fetchInnertubeData_def example_env_def empty_net_def Let_def raiseHTTPErrors_def
      WatchURLTemplate_def InnertubeAPIURLTemplate_def InnertubeContext_def
      example_key_pages extractInnertubeAPIKey_def example_decode_def example_bot_blocked
      example_retries numeral_3_eq_3)

text \<open>
  The retry loop on the path that has it. An attempt that starts at request number
  \<open>i\<close> is bot-blocked with key \<open>apiKey\<close> when the page comes back without the
  consent marker and with that key, and the player response is classified as
  blocked.
\<close>

lemma bot_blocked_attempt:
  assumes page: "server e (length (calls n)) = Reply code status (Body b)" "code \<noteq> 429" "code < 400"
      "\<not> Contains (UnescapeString e b) consent_marker"
      "find_first match_api_key (UnescapeString e b) = Some apiKey"
    and player: "server e (Suc (length (calls n))) = Reply code2 status2 (Body b2)"
      "code2 \<noteq> 429" "code2 < 400" "Decode e b2 = Inr d"
      "assertPlayability d videoID = Some (RequestBlocked videoID None)"
  shows "fetchVideoDetailsAndCaptionsJSON e tlf videoID tryNumber n =
     (let n2 = n\<lparr>calls := calls n @
                 [GET (WatchURLTemplate videoID),
                  POST (InnertubeAPIURLTemplate apiKey) ''application/json''
                    (JObj [(''context'', the (map_of InnertubeContext ''context'')),
                           (''videoId'', JStr videoID)])]\<rparr>
      in if tryNumber + 1 < allowed_retries tlf
         then fetchVideoDetailsAndCaptionsJSON e tlf videoID (tryNumber + 1)
                (n2\<lparr>slept := slept n2 @ [tryNumber + 1]\<rparr>)
         else (Inl (RequestBlocked videoID (proxyConfig tlf)), n2))"
proof -
  have html: "fetchVideoHTML e videoID n
      = (Inr (UnescapeString e b), n\<lparr>calls := calls n @ [GET (WatchURLTemplate videoID)]\<rparr>)"
    using page by (simp add: fetchVideoHTML_def fetchHTML_def raiseHTTPErrors_def Let_def)
  have key: "extractInnertubeAPIKey (UnescapeString e b) videoID = Inr apiKey"
    using page by (simp add: extractInnertubeAPIKey_def)
  have data: "fetchInnertubeData e videoID apiKey (n\<lparr>calls := calls n @ [GET (WatchURLTemplate videoID)]\<rparr>)
      = (Inr d, n\<lparr>calls := calls n @
                 [GET (WatchURLTemplate videoID),
                  POST (InnertubeAPIURLTemplate apiKey) ''application/json''
                    (JObj [(''context'', the (map_of InnertubeContext ''context'')),
                           (''videoId'', JStr videoID)])]\<rparr>)"
    using player by (simp add: fetchInnertubeData_def raiseHTTPErrors_def Let_def)
  have ex: "extractVideoDetailsAndCaptionsJSON d videoID = Inl (RequestBlocked videoID None)"
    using player by (simp add: extractVideoDetailsAndCaptionsJSON_def)
  show ?thesis
    by (subst fetchVideoDetailsAndCaptionsJSON.simps) (simp add: html key data ex Let_def)
qed


text \<open>
  When every attempt is bot-blocked, the acquisition makes one attempt, and one more
  for every \<open>tryNumber\<close> with \<open>tryNumber + 1 < allowed_retries\<close>, sleeping
  \<open>tryNumber + 1\<close> seconds before each retry; it ends with the blocked error carrying
  the proxy configuration.
\<close>

lemma bot_blocked_retry_loop:
  assumes every: "\<And>k. \<exists>code status b code2 status2 b2 d.
        server e (length (calls n) + 2 * k) = Reply code status (Body b)
        \<and> code \<noteq> 429 \<and> code < 400
        \<and> \<not> Contains (UnescapeString e b) consent_marker
        \<and> find_first match_api_key (UnescapeString e b) = Some apiKey
        \<and> server e (Suc (length (calls n) + 2 * k)) = Reply code2 status2 (Body b2)
        \<and> code2 \<noteq> 429 \<and> code2 < 400 \<and> Decode e b2 = Inr d
        \<and> assertPlayability d videoID = Some (RequestBlocked videoID None)"
    and j: "j = nat (allowed_retries tlf - tryNumber - 1)"
  shows "fetchVideoDetailsAndCaptionsJSON e tlf videoID tryNumber n =
     (Inl (RequestBlocked videoID (proxyConfig tlf)),
      n\<lparr>calls := calls n @
             concat (replicate (Suc j)
               [GET (WatchURLTemplate videoID),
                POST (InnertubeAPIURLTemplate apiKey) ''application/json''
                  (JObj [(''context'', the (map_of InnertubeContext ''context'')),
                         (''videoId'', JStr videoID)])]),
         slept := slept n @ map (\<lambda>i. tryNumber + 1 + int i) [0..<j]\<rparr>)"
  using every j
proof (induction j arbitrary: tryNumber n)
  case 0
  from "0.prems"(1) [of 0] obtain code status b code2 status2 b2 d where
    a: "server e (length (calls n)) = Reply code status (Body b)" "code \<noteq> 429" "code < 400"
      "\<not> Contains (UnescapeString e b) consent_marker"
      "find_first match_api_key (UnescapeString e b) = Some apiKey"
      "server e (Suc (length (calls n))) = Reply code2 status2 (Body b2)"
      "code2 \<noteq> 429" "code2 < 400" "Decode e b2 = Inr d"
      "assertPlayability d videoID = Some (RequestBlocked videoID None)"
    by auto
  from "0.prems"(2) have last: "\<not> tryNumber + 1 < allowed_retries tlf" by simp
  show ?case
    unfolding bot_blocked_attempt [OF a] Let_def using last by simp
next
  case (Suc j)
  from Suc.prems(1) [of 0] obtain code status b code2 status2 b2 d where
    a: "server e (length (calls n)) = Reply code status (Body b)" "code \<noteq> 429" "code < 400"
      "\<not> Contains (UnescapeString e b) consent_marker"
      "find_first match_api_key (UnescapeString e b) = Some apiKey"
      "server e (Suc (length (calls n))) = Reply code2 status2 (Body b2)"
      "code2 \<noteq> 429" "code2 < 400" "Decode e b2 = Inr d"
      "assertPlayability d videoID = Some (RequestBlocked videoID None)"
    by auto
  let ?pair = "[GET (WatchURLTemplate videoID),
                POST (InnertubeAPIURLTemplate apiKey) ''application/json''
                  (JObj [(''context'', the (map_of InnertubeContext ''context'')),
                         (''videoId'', JStr videoID)])]"
  let ?n' = "n\<lparr>calls := calls n @ ?pair, slept := slept n @ [tryNumber + 1]\<rparr>"
  from Suc.prems(2) have more: "tryNumber + 1 < allowed_retries tlf"
    and j': "j = nat (allowed_retries tlf - (tryNumber + 1) - 1)"
    by linarith+
  have every': "\<exists>code status b code2 status2 b2 d.
        server e (length (calls ?n') + 2 * k) = Reply code status (Body b)
        \<and> code \<noteq> 429 \<and> code < 400
        \<and> \<not> Contains (UnescapeString e b) consent_marker
        \<and> find_first match_api_key (UnescapeString e b) = Some apiKey
        \<and> server e (Suc (length (calls ?n') + 2 * k)) = Reply code2 status2 (Body b2)
        \<and> code2 \<noteq> 429 \<and> code2 < 400 \<and> Decode e b2 = Inr d
        \<and> assertPlayability d videoID = Some (RequestBlocked videoID None)" for k
    using Suc.prems(1) [of "Suc k"] by simp
  have step: "fetchVideoDetailsAndCaptionsJSON e tlf videoID tryNumber n
      = fetchVideoDetailsAndCaptionsJSON e tlf videoID (tryNumber + 1) ?n'"
    unfolding bot_blocked_attempt [OF a] Let_def using more by simp
  have shift: "map (\<lambda>i. tryNumber + 1 + int i) [0..<Suc j]
      = (tryNumber + 1) # map (\<lambda>i. tryNumber + 1 + 1 + int i) [0..<j]"
    by (simp add: map_upt_Suc del: upt_Suc)
  show ?case
    unfolding step Suc.IH [OF every' j'] shift
    by simp
qed

section \<open>The snippet parser: properties\<close>




















section \<open>The structured formatter: properties\<close>

lemma fold_update_map:
  "k \<le> length r \<Longrightarrow>
     fold (\<lambda>i result. result[i := f i]) [0..<k] r = map f [0..<k] @ drop k r"
proof (induction k)
  case 0
  then show ?case by simp
next
  case (Suc k)
  then have k: "k < length r" by simp
  have "fold (\<lambda>i result. result[i := f i]) [0..<Suc k] r
      = (map f [0..<k] @ drop k r)[k := f k]"
    using Suc by simp
  also have "\<dots> = map f [0..<k] @ (drop k r)[0 := f k]"
    by (simp add: list_update_append)
  also have "(drop k r)[0 := f k] = f k # drop (Suc k) r"
    using k by (simp add: Cons_nth_drop_Suc [symmetric])
  finally show ?case by simp
qed

text \<open>The raw data is one object per snippet, in the order of the snippets.\<close>

lemma ToRawData_map: "ToRawData ft = map raw_snippet (Snippets ft)"
proof -
  have "ToRawData ft = map (\<lambda>i. raw_snippet (Snippets ft ! i)) [0..<length (Snippets ft)]"
    unfolding ToRawData_def
    using fold_update_map [of "length (Snippets ft)" "replicate (length (Snippets ft)) JNull"
        "\<lambda>i. raw_snippet (Snippets ft ! i)"]
    by simp
  also have "\<dots> = map raw_snippet (Snippets ft)"
    by (rule nth_equalityI) simp_all
  finally show ?thesis .
qed

lemma fold_snoc_map: "fold (\<lambda>x acc. acc @ [f x]) xs acc0 = acc0 @ map f xs"
  by (induction xs arbitrary: acc0) auto

lemma JSON_FormatTranscripts_data:
  "JSON_FormatTranscripts e transcripts
     = MarshalIndent e (JArr (map (\<lambda>t. JArr (map raw_snippet (Snippets t))) transcripts))"
  by (simp add: JSON_FormatTranscripts_def Let_def fold_snoc_map ToRawData_map split: sum.splits)

text \<open>
  C9. The formatter hands to \<open>json.MarshalIndent\<close> an array with one object per
  snippet, in order, each with exactly the keys \<open>text\<close>, \<open>start\<close> and \<open>duration\<close>. The
  encoder and its decoder belong to the standard library; for any pair of them in
  which the decoder gives back what the encoder was given, decoding the formatter's
  output yields as many items as there are snippets, the item at each index holding
  the text, start and duration of the snippet at that index.
\<close>

theorem JSON_round_trip:
  assumes codec: "\<And>v s. MarshalIndent e v = Inr s \<Longrightarrow> Unmarshal e s = Inr v"
  shows "ToRawData transcript
           = map (\<lambda>snippet. JObj [(''text'', JStr (Text snippet)),
                                   (''start'', JNum (Start snippet)),
                                   (''duration'', JNum (Duration snippet))])
               (Snippets transcript)
       \<and> JSON_FormatTranscript e transcript = MarshalIndent e (JArr (ToRawData transcript))
       \<and> (\<forall>out. JSON_FormatTranscript e transcript = Inr out \<longrightarrow>
            (\<exists>items. Unmarshal e out = Inr (JArr items)
               \<and> length items = length (Snippets transcript)
               \<and> (\<forall>i < length (Snippets transcript).
                    items ! i = JObj [(''text'', JStr (Text (Snippets transcript ! i))),
                                      (''start'', JNum (Start (Snippets transcript ! i))),
                                      (''duration'', JNum (Duration (Snippets transcript ! i)))])))"
proof -
  have raw: "ToRawData transcript
           = map (\<lambda>snippet. JObj [(''text'', JStr (Text snippet)),
                                   (''start'', JNum (Start snippet)),
                                   (''duration'', JNum (Duration snippet))])
               (Snippets transcript)"
    by (simp add: ToRawData_map raw_snippet_def)
  have fmt: "JSON_FormatTranscript e transcript = MarshalIndent e (JArr (ToRawData transcript))"
    by (simp add: JSON_FormatTranscript_def Let_def split: sum.splits)
  have decoded: "\<exists>items. Unmarshal e out = Inr (JArr items)
               \<and> length items = length (Snippets transcript)
               \<and> (\<forall>i < length (Snippets transcript).
                    items ! i = JObj [(''text'', JStr (Text (Snippets transcript ! i))),
                                      (''start'', JNum (Start (Snippets transcript ! i))),
                                      (''duration'', JNum (Duration (Snippets transcript ! i)))])"
    if out: "JSON_FormatTranscript e transcript = Inr out" for out
  proof -
    from out fmt have "MarshalIndent e (JArr (ToRawData transcript)) = Inr out" by simp
    from codec [OF this] have "Unmarshal e out = Inr (JArr (ToRawData transcript))" .
    moreover have "length (ToRawData transcript) = length (Snippets transcript)"
      by (simp add: raw)
    moreover have "\<forall>i < length (Snippets transcript).
        ToRawData transcript ! i = JObj [(''text'', JStr (Text (Snippets transcript ! i))),
                                      (''start'', JNum (Start (Snippets transcript ! i))),
                                      (''duration'', JNum (Duration (Snippets transcript ! i)))]"
      by (simp add: raw)
    ultimately show ?thesis by blast
  qed
  from raw fmt decoded show ?thesis by blast
qed

theorem JSON_round_trip_witness:
  "JSON_FormatTranscript example_codec_env example_transcript = Inr ''[3 items]''
   \<and> Unmarshal example_codec_env ''[3 items]''
       = Inr (JArr [JObj [(''text'', JStr ''Hello''), (''start'', JNum 0), (''duration'', JNum 10)],
                    JObj [(''text'', JStr ''World''), (''start'', JNum 5), (''duration'', JNum (3 / 2))],
                    JObj [(''text'', JStr ''Again''), (''start'', JNum 3), (''duration'', JNum 1)]])"
proof -
  have codec: "\<And>v s. MarshalIndent example_codec_env v = Inr s \<Longrightarrow> Unmarshal example_codec_env s = Inr v"
    by (simp add: example_codec_env_def split: if_splits)
  note rt = JSON_round_trip [of example_codec_env example_transcript, OF codec]
  have raw: "ToRawData example_transcript =
      [JObj [(''text'', JStr ''Hello''), (''start'', JNum 0), (''duration'', JNum 10)],
       JObj [(''text'', JStr ''World''), (''start'', JNum 5), (''duration'', JNum (3 / 2))],
       JObj [(''text'', JStr ''Again''), (''start'', JNum 3), (''duration'', JNum 1)]]"
    using rt [THEN conjunct1] by (simp add: example_transcript_def)
  have a: "JSON_FormatTranscript example_codec_env example_transcript = Inr ''[3 items]''"
  proof -
    have "MarshalIndent example_codec_env (JArr (ToRawData example_transcript)) = Inr ''[3 items]''"
      by (simp add: example_codec_env_def)
    with rt [THEN conjunct2, THEN conjunct1] show ?thesis by simp
  qed
  have b: "Unmarshal example_codec_env ''[3 items]'' = Inr (JArr (ToRawData example_transcript))"
    by (simp add: example_codec_env_def)
  from a b raw show ?thesis by simp
qed

end
